theory Spec2Isabelle
  imports Main
begin

section \<open>Data model\<close>

text \<open>
  The wallet client of \<^verbatim>\<open>api/transaction.go\<close> and of the file of the POE operations
  (\<^verbatim>\<open>CreatePOE\<close> to \<^verbatim>\<open>UploadPOEFile\<close>) prepares a request,
  sends it through the REST client \<^verbatim>\<open>w.c\<close> and decodes the answer. Every Go function
  returns the pair \<^verbatim>\<open>(result, err)\<close>; a pointer is an \<open>option\<close>, \<open>None\<close> being
  \<^verbatim>\<open>nil\<close>.

  Go errors are values. \<open>Errorf\<close> is \<^verbatim>\<open>fmt.Errorf\<close> with its text formatted,
  \<open>CodedError\<close> is \<^verbatim>\<open>rest.CodedError(code, message)\<close>, \<open>UnexpectedResponseCode\<close>
  is the error \<^verbatim>\<open>restapi.RequireOK\<close> builds from a status and the response text, and
  \<open>LibError\<close> stands for any error a library call hands back (network, JSON, file
  system, signing).
\<close>

datatype error =
    Errorf string
  | CodedError int string
  | UnexpectedResponseCode int string
  | LibError string

text \<open>
  A value held in a Go \<^verbatim>\<open>interface{}\<close> after \<^verbatim>\<open>encoding/json\<close> has decoded into it:
  \<^verbatim>\<open>nil\<close>, \<^verbatim>\<open>bool\<close>, \<^verbatim>\<open>float64\<close>, \<^verbatim>\<open>string\<close>, \<^verbatim>\<open>[]interface{}\<close> or
  \<^verbatim>\<open>map[string]interface{}\<close>. The client never looks at a number, so \<open>float64\<close> is
  left uninterpreted.
\<close>

typedecl float64

datatype iface =
    VNil
  | VBool bool
  | VFloat64 float64
  | VString string
  | VSlice "iface list"
  | VMap "(string \<times> iface) list"

text \<open>\<^verbatim>\<open>reflect.TypeOf(v)\<close> as \<^verbatim>\<open>%v\<close> prints it.\<close>

fun TypeOf :: "iface \<Rightarrow> string" where
  "TypeOf VNil = ''<nil>''"
| "TypeOf (VBool b) = ''bool''"
| "TypeOf (VFloat64 x) = ''float64''"
| "TypeOf (VString s) = ''string''"
| "TypeOf (VSlice xs) = ''[]interface {}''"
| "TypeOf (VMap kvs) = ''map[string]interface {}''"

text \<open>
  Modelled from the spec: the declarations of \<^verbatim>\<open>SignatureParam\<close> and
  \<^verbatim>\<open>SignatureBody\<close> live in the common library; the fields are those of the spec's
  SignatureParams and SignedPayload.
\<close>

record SignatureParam =
  Creator :: string
  Nonce :: string
  PrivateKey :: string

record SignatureBody =
  SigCreator :: string
  SigNonce :: string
  SignatureValue :: string
  SignatureAlg :: string

text \<open>\<^verbatim>\<open>WalletRequest{Payload, Signature}\<close>, the request envelope.\<close>

record WalletRequest =
  Payload :: string
  Signature :: "SignatureBody option"

text \<open>
  \<^verbatim>\<open>rtstructs.Response\<close>, the response envelope; \<open>RPayload\<close> is its \<^verbatim>\<open>Payload\<close> field
  (renamed, the request envelope has a field of the same name).
\<close>

record Response =
  ErrCode :: int
  ErrMessage :: string
  RPayload :: iface

type_synonym header = "string \<rightharpoonup> string list"

datatype req_body = JSONBody WalletRequest | RawBody string

text \<open>
  The request object of the REST library holds what the operation has put into it: the
  method and path given to \<^verbatim>\<open>NewRequest\<close>, the header map given to
  \<^verbatim>\<open>SetHeaders\<close>, the single headers and the query parameters in the order of the
  \<^verbatim>\<open>SetHeader\<close> and \<^verbatim>\<open>SetParam\<close> calls, and the body given to \<^verbatim>\<open>SetBody\<close>.
\<close>

record request =
  req_method :: string
  req_path :: string
  req_headers :: header
  req_header_sets :: "(string \<times> string) list"
  req_params :: "(string \<times> string) list"
  req_body :: "req_body option"

definition NewRequest :: "string \<Rightarrow> string \<Rightarrow> request" where
  "NewRequest m p =
     \<lparr>req_method = m, req_path = p, req_headers = Map.empty, req_header_sets = [],
      req_params = [], req_body = None\<rparr>"

definition SetHeaders :: "header \<Rightarrow> request \<Rightarrow> request" where
  "SetHeaders h r = r\<lparr>req_headers := h\<rparr>"

definition SetHeader :: "string \<Rightarrow> string \<Rightarrow> request \<Rightarrow> request" where
  "SetHeader k v r = r\<lparr>req_header_sets := req_header_sets r @ [(k, v)]\<rparr>"

definition SetParam :: "string \<Rightarrow> string \<Rightarrow> request \<Rightarrow> request" where
  "SetParam k v r = r\<lparr>req_params := req_params r @ [(k, v)]\<rparr>"

definition SetBody :: "req_body \<Rightarrow> request \<Rightarrow> request" where
  "SetBody b r = r\<lparr>req_body := Some b\<rparr>"

record http_response =
  StatusCode :: int
  Body :: string

text \<open>
  A file that \<^verbatim>\<open>os.Open\<close> has opened: the bytes a reader gets from it, and the error
  that ends the reading, if any.
\<close>

record os_file =
  file_bytes :: string
  file_read_err :: "error option"

text \<open>
  What an operation does to the outside, in the order it does it: the key custody lookup,
  the signing with the bytes signed, the construction of a request, the transport send
  with the request sent, the two JSON decodings, the opening of the local file, and the
  deferred closing of the response body and of the file. Logging is left out.
\<close>

datatype event =
    EvQueryPrivateKey header "SignatureParam option"
  | EvBuildSignature "SignatureParam option" string
  | EvNewRequest string string
  | EvDoRequest request
  | EvDecodeBody http_response
  | EvUnmarshal string
  | EvBodyClose
  | EvOpen string
  | EvFileClose

record 'r outcome =
  ret_result :: "'r option"
  ret_err :: "error option"
  ret_trace :: "event list"

text \<open>
  The receiver \<^verbatim>\<open>w\<close> with everything the operations call and this repository's two files
  do not define: the transport \<^verbatim>\<open>w.c.DoRequest\<close>, the key custody client \<^verbatim>\<open>w.s\<close>
  (\<open>None\<close> when nil) with \<^verbatim>\<open>w.queryPrivateKey\<close>, \<^verbatim>\<open>buildSignatureBody\<close>,
  \<^verbatim>\<open>json.Marshal\<close> on the request body type \<open>'b\<close>, \<^verbatim>\<open>restapi.DecodeBody\<close>,
  \<^verbatim>\<open>json.Unmarshal\<close> into the result type \<open>'r\<close> (it hands back what it has left in
  \<^verbatim>\<open>result\<close> together with its error), \<^verbatim>\<open>os.Open\<close>, the boundary the multipart
  writer draws, and the constants \<^verbatim>\<open>errors.SuccCode\<close>, \<^verbatim>\<open>wallet.OffchainPOEID\<close>,
  \<^verbatim>\<open>wallet.OffchainReadOnly\<close> and \<^verbatim>\<open>wallet.OffchainPOEFile\<close>. Each library call is a
  function of its arguments.
\<close>

record ('b, 'r) WalletClient =
  DoRequest :: "request \<Rightarrow> error + http_response"
  w_s :: "unit option"
  queryPrivateKey :: "header \<Rightarrow> SignatureParam option \<Rightarrow> error + SignatureParam option"
  buildSignatureBody :: "SignatureParam option \<Rightarrow> string \<Rightarrow> error + SignatureBody option"
  jsonMarshal :: "'b \<Rightarrow> error + string"
  DecodeBody :: "http_response \<Rightarrow> error + Response"
  jsonUnmarshal :: "string \<Rightarrow> 'r option \<times> error option"
  osOpen :: "string \<Rightarrow> error + os_file"
  randomBoundary :: string
  SuccCode :: int
  OffchainPOEID :: string
  OffchainReadOnly :: string
  OffchainPOEFile :: string

section \<open>Returning, and the effects around a call\<close>

definition failed :: "error \<Rightarrow> event list \<Rightarrow> 'r outcome" where
  "failed e tr = \<lparr>ret_result = None, ret_err = Some e, ret_trace = tr\<rparr>"

definition after :: "event list \<Rightarrow> 'r outcome \<Rightarrow> 'r outcome" where
  "after evs out = out\<lparr>ret_trace := evs @ ret_trace out\<rparr>"

definition deferred :: "event list \<Rightarrow> 'r outcome \<Rightarrow> 'r outcome" where
  "deferred evs out = out\<lparr>ret_trace := ret_trace out @ evs\<rparr>"

section \<open>Sending a request and decoding the response\<close>

text \<open>
  \<^verbatim>\<open>restapi.RequireOK\<close> of the REST library wraps the transport's answer: a transport
  error is passed on, a status other than 200 becomes an error carrying the status and
  the response text, and a response with status 200 is passed on.
\<close>

definition RequireOK :: "error + http_response \<Rightarrow> error + http_response" where
  "RequireOK d =
     (case d of
        Inl e \<Rightarrow> Inl e
      | Inr resp \<Rightarrow>
          if StatusCode resp \<noteq> 200
          then Inl (UnexpectedResponseCode (StatusCode resp) (Body resp))
          else Inr resp)"

text \<open>
  Every operation ends with the same lines, from \<^verbatim>\<open>// Do http request\<close> to the final
  \<^verbatim>\<open>return\<close> (\<^verbatim>\<open>transaction.go\<close> 67-93, 161-187, 255-281, 349-375, 426-452;
  the POE operations 83-109, 154-180, 190-215, 296-329): send, require status OK, defer the
  closing of the response body, decode the envelope, compare the error code, assert that
  the payload is a string, unmarshal it into \<^verbatim>\<open>result\<close>. They are written once here.
\<close>

definition sendAndDecode :: "('b, 'r) WalletClient \<Rightarrow> request \<Rightarrow> 'r outcome" where
  "sendAndDecode w r =
     (case RequireOK (DoRequest w r) of
        Inl e \<Rightarrow> failed e [EvDoRequest r]
      | Inr resp \<Rightarrow>
          deferred [EvBodyClose]
            (case DecodeBody w resp of
               Inl e \<Rightarrow> failed e [EvDoRequest r, EvDecodeBody resp]
             | Inr respBody \<Rightarrow>
                 if ErrCode respBody \<noteq> SuccCode w
                 then failed (CodedError (ErrCode respBody) (ErrMessage respBody))
                        [EvDoRequest r, EvDecodeBody resp]
                 else
                   (case RPayload respBody of
                      VString respPayload \<Rightarrow>
                        \<lparr>ret_result = fst (jsonUnmarshal w respPayload),
                         ret_err = snd (jsonUnmarshal w respPayload),
                         ret_trace = [EvDoRequest r, EvDecodeBody resp, EvUnmarshal respPayload]\<rparr>
                    | v \<Rightarrow>
                        failed (Errorf (''response payload type invalid: '' @ TypeOf v))
                          [EvDoRequest r, EvDecodeBody resp])))"

section \<open>Transactions\<close>

definition IssueCToken ::
  "('b, 'r) WalletClient \<Rightarrow> header \<Rightarrow> 'b option \<Rightarrow> SignatureBody option \<Rightarrow> 'r outcome" where
  "IssueCToken w hdr body sign =
     (case body of
        None \<Rightarrow> failed (Errorf ''request payload invalid'') []
      | Some b \<Rightarrow>
          let r = SetHeaders hdr (NewRequest ''POST'' ''/v1/transaction/tokens/issue'') in
          (case jsonMarshal w b of
             Inl e \<Rightarrow> failed e [EvNewRequest ''POST'' ''/v1/transaction/tokens/issue'']
           | Inr reqPayload \<Rightarrow>
               let reqBody = \<lparr>Payload = reqPayload, Signature = sign\<rparr>;
                   r = SetBody (JSONBody reqBody) r
               in after [EvNewRequest ''POST'' ''/v1/transaction/tokens/issue'']
                    (sendAndDecode w r)))"

text \<open>
  \<^verbatim>\<open>IssueCTokenSign\<close> marshals the body, signs these bytes, and calls
  \<^verbatim>\<open>IssueCToken\<close>, which marshals the body again for the envelope. The other three
  signing variants do the same with their own operation.
\<close>

definition IssueCTokenSign ::
  "('b, 'r) WalletClient \<Rightarrow> header \<Rightarrow> 'b option \<Rightarrow> SignatureParam option \<Rightarrow> 'r outcome" where
  "IssueCTokenSign w hdr body signParams =
     (case body of
        None \<Rightarrow> failed (Errorf ''request payload invalid'') []
      | Some b \<Rightarrow>
          (case jsonMarshal w b of
             Inl e \<Rightarrow> failed e []
           | Inr reqPayload \<Rightarrow>
               (case buildSignatureBody w signParams reqPayload of
                  Inl e \<Rightarrow> failed e [EvBuildSignature signParams reqPayload]
                | Inr sign \<Rightarrow>
                    after [EvBuildSignature signParams reqPayload]
                      (IssueCToken w hdr body sign))))"

definition IssueAsset ::
  "('b, 'r) WalletClient \<Rightarrow> header \<Rightarrow> 'b option \<Rightarrow> SignatureBody option \<Rightarrow> 'r outcome" where
  "IssueAsset w hdr body sign =
     (case body of
        None \<Rightarrow> failed (Errorf ''request payload invalid'') []
      | Some b \<Rightarrow>
          let r = SetHeaders hdr (NewRequest ''POST'' ''/v1/transaction/assets/issue'') in
          (case jsonMarshal w b of
             Inl e \<Rightarrow> failed e [EvNewRequest ''POST'' ''/v1/transaction/assets/issue'']
           | Inr reqPayload \<Rightarrow>
               let reqBody = \<lparr>Payload = reqPayload, Signature = sign\<rparr>;
                   r = SetBody (JSONBody reqBody) r
               in after [EvNewRequest ''POST'' ''/v1/transaction/assets/issue'']
                    (sendAndDecode w r)))"

definition IssueAssetSign ::
  "('b, 'r) WalletClient \<Rightarrow> header \<Rightarrow> 'b option \<Rightarrow> SignatureParam option \<Rightarrow> 'r outcome" where
  "IssueAssetSign w hdr body signParams =
     (case body of
        None \<Rightarrow> failed (Errorf ''request payload invalid'') []
      | Some b \<Rightarrow>
          (case jsonMarshal w b of
             Inl e \<Rightarrow> failed e []
           | Inr reqPayload \<Rightarrow>
               (case buildSignatureBody w signParams reqPayload of
                  Inl e \<Rightarrow> failed e [EvBuildSignature signParams reqPayload]
                | Inr sign \<Rightarrow>
                    after [EvBuildSignature signParams reqPayload]
                      (IssueAsset w hdr body sign))))"

definition TransferCToken ::
  "('b, 'r) WalletClient \<Rightarrow> header \<Rightarrow> 'b option \<Rightarrow> SignatureBody option \<Rightarrow> 'r outcome" where
  "TransferCToken w hdr body sign =
     (case body of
        None \<Rightarrow> failed (Errorf ''request payload invalid'') []
      | Some b \<Rightarrow>
          let r = SetHeaders hdr (NewRequest ''POST'' ''/v1/transaction/tokens/transfer'') in
          (case jsonMarshal w b of
             Inl e \<Rightarrow> failed e [EvNewRequest ''POST'' ''/v1/transaction/tokens/transfer'']
           | Inr reqPayload \<Rightarrow>
               let reqBody = \<lparr>Payload = reqPayload, Signature = sign\<rparr>;
                   r = SetBody (JSONBody reqBody) r
               in after [EvNewRequest ''POST'' ''/v1/transaction/tokens/transfer'']
                    (sendAndDecode w r)))"

definition TransferCTokenSign ::
  "('b, 'r) WalletClient \<Rightarrow> header \<Rightarrow> 'b option \<Rightarrow> SignatureParam option \<Rightarrow> 'r outcome" where
  "TransferCTokenSign w hdr body signParams =
     (case body of
        None \<Rightarrow> failed (Errorf ''request payload invalid'') []
      | Some b \<Rightarrow>
          (case jsonMarshal w b of
             Inl e \<Rightarrow> failed e []
           | Inr reqPayload \<Rightarrow>
               (case buildSignatureBody w signParams reqPayload of
                  Inl e \<Rightarrow> failed e [EvBuildSignature signParams reqPayload]
                | Inr sign \<Rightarrow>
                    after [EvBuildSignature signParams reqPayload]
                      (TransferCToken w hdr body sign))))"

definition TransferAsset ::
  "('b, 'r) WalletClient \<Rightarrow> header \<Rightarrow> 'b option \<Rightarrow> SignatureBody option \<Rightarrow> 'r outcome" where
  "TransferAsset w hdr body sign =
     (case body of
        None \<Rightarrow> failed (Errorf ''request payload invalid'') []
      | Some b \<Rightarrow>
          let r = SetHeaders hdr (NewRequest ''POST'' ''/v1/transaction/assets/transfer'') in
          (case jsonMarshal w b of
             Inl e \<Rightarrow> failed e [EvNewRequest ''POST'' ''/v1/transaction/assets/transfer'']
           | Inr reqPayload \<Rightarrow>
               let reqBody = \<lparr>Payload = reqPayload, Signature = sign\<rparr>;
                   r = SetBody (JSONBody reqBody) r
               in after [EvNewRequest ''POST'' ''/v1/transaction/assets/transfer'']
                    (sendAndDecode w r)))"

definition TransferAssetSign ::
  "('b, 'r) WalletClient \<Rightarrow> header \<Rightarrow> 'b option \<Rightarrow> SignatureParam option \<Rightarrow> 'r outcome" where
  "TransferAssetSign w hdr body signParams =
     (case body of
        None \<Rightarrow> failed (Errorf ''request payload invalid'') []
      | Some b \<Rightarrow>
          (case jsonMarshal w b of
             Inl e \<Rightarrow> failed e []
           | Inr reqPayload \<Rightarrow>
               (case buildSignatureBody w signParams reqPayload of
                  Inl e \<Rightarrow> failed e [EvBuildSignature signParams reqPayload]
                | Inr sign \<Rightarrow>
                    after [EvBuildSignature signParams reqPayload]
                      (TransferAsset w hdr body sign))))"

text \<open>
  \<^verbatim>\<open>result\<close> of \<^verbatim>\<open>QueryTransactionLogs\<close> is a \<^verbatim>\<open>structs.TransactionLogs\<close> value, not
  a pointer; \<open>None\<close> is its zero value.
\<close>

definition QueryTransactionLogs ::
  "('b, 'r) WalletClient \<Rightarrow> header \<Rightarrow> string \<Rightarrow> string \<Rightarrow> 'r outcome" where
  "QueryTransactionLogs w hdr ident txType =
     (if ident = '''' then failed (Errorf ''request id invalid'') []
      else
        let r = NewRequest ''GET'' ''/v1/transaction/logs'';
            r = SetHeaders hdr r;
            r = SetParam ''id'' ident r;
            r = SetParam ''type'' txType r
        in after [EvNewRequest ''GET'' ''/v1/transaction/logs''] (sendAndDecode w r))"

section \<open>Proof of existence\<close>

text \<open>
  \<^verbatim>\<open>CreatePOE\<close> and \<^verbatim>\<open>UpdatePOE\<close> replace \<^verbatim>\<open>signParams\<close> by the answer of the key
  custody lookup when \<^verbatim>\<open>w.s\<close> is not nil, marshal the body once, sign these bytes and
  put the same bytes into the envelope.
\<close>

definition CreatePOE ::
  "('b, 'r) WalletClient \<Rightarrow> header \<Rightarrow> 'b option \<Rightarrow> SignatureParam option \<Rightarrow> 'r outcome" where
  "CreatePOE w hdr body signParams =
     (case body of
        None \<Rightarrow> failed (Errorf ''request payload invalid'') []
      | Some b \<Rightarrow>
          (case (if w_s w \<noteq> None then queryPrivateKey w hdr signParams else Inr signParams) of
             Inl e \<Rightarrow> failed e [EvQueryPrivateKey hdr signParams]
           | Inr signParams' \<Rightarrow>
               let looked = (if w_s w \<noteq> None then [EvQueryPrivateKey hdr signParams] else []) in
               (case jsonMarshal w b of
                  Inl e \<Rightarrow> failed e looked
                | Inr reqPayload \<Rightarrow>
                    (case buildSignatureBody w signParams' reqPayload of
                       Inl e \<Rightarrow> failed e (looked @ [EvBuildSignature signParams' reqPayload])
                     | Inr sign \<Rightarrow>
                         let r = SetHeaders hdr (NewRequest ''POST'' ''/v1/poe/create'');
                             reqBody = \<lparr>Payload = reqPayload, Signature = sign\<rparr>;
                             r = SetBody (JSONBody reqBody) r
                         in after (looked @ [EvBuildSignature signParams' reqPayload,
                                             EvNewRequest ''POST'' ''/v1/poe/create''])
                              (sendAndDecode w r)))))"

definition UpdatePOE ::
  "('b, 'r) WalletClient \<Rightarrow> header \<Rightarrow> 'b option \<Rightarrow> SignatureParam option \<Rightarrow> 'r outcome" where
  "UpdatePOE w hdr body signParams =
     (case body of
        None \<Rightarrow> failed (Errorf ''request payload invalid'') []
      | Some b \<Rightarrow>
          (case (if w_s w \<noteq> None then queryPrivateKey w hdr signParams else Inr signParams) of
             Inl e \<Rightarrow> failed e [EvQueryPrivateKey hdr signParams]
           | Inr signParams' \<Rightarrow>
               let looked = (if w_s w \<noteq> None then [EvQueryPrivateKey hdr signParams] else []) in
               (case jsonMarshal w b of
                  Inl e \<Rightarrow> failed e looked
                | Inr reqPayload \<Rightarrow>
                    (case buildSignatureBody w signParams' reqPayload of
                       Inl e \<Rightarrow> failed e (looked @ [EvBuildSignature signParams' reqPayload])
                     | Inr sign \<Rightarrow>
                         let r = SetHeaders hdr (NewRequest ''PUT'' ''/v1/poe/update'');
                             reqBody = \<lparr>Payload = reqPayload, Signature = sign\<rparr>;
                             r = SetBody (JSONBody reqBody) r
                         in after (looked @ [EvBuildSignature signParams' reqPayload,
                                             EvNewRequest ''PUT'' ''/v1/poe/update''])
                              (sendAndDecode w r)))))"

definition QueryPOE :: "('b, 'r) WalletClient \<Rightarrow> header \<Rightarrow> string \<Rightarrow> 'r outcome" where
  "QueryPOE w hdr ident =
     (let r = NewRequest ''GET'' ''/v1/poe'';
          r = SetHeaders hdr r;
          r = SetParam ''id'' ident r
      in after [EvNewRequest ''GET'' ''/v1/poe''] (sendAndDecode w r))"

section \<open>Uploading a file\<close>

text \<open>
  \<^verbatim>\<open>mime/multipart.Writer\<close> over a \<^verbatim>\<open>bytes.Buffer\<close>: the bytes written so far, the
  boundary, and whether a part has been started (\<^verbatim>\<open>lastpart != nil\<close>). A part starts
  with the boundary line (after a line break when it is not the first), its header lines
  in the order of their keys, and an empty line; a write to the part appends to the
  buffer; \<^verbatim>\<open>Close\<close> appends the terminating boundary line. A write to a
  \<^verbatim>\<open>bytes.Buffer\<close> returns no error, so these calls return \<open>Inr\<close>; the operation
  tests their errors all the same.
\<close>

record Writer =
  wbuf :: string
  wboundary :: string
  lastpart :: bool

definition CRLF :: string where
  "CRLF = [CHR 0x0D, CHR 0x0A]"

definition NewWriter :: "string \<Rightarrow> Writer" where
  "NewWriter b = \<lparr>wbuf = [], wboundary = b, lastpart = False\<rparr>"

definition escapeQuotes :: "string \<Rightarrow> string" where
  "escapeQuotes s =
     concat (map (\<lambda>c. if c = CHR 0x5C then [CHR 0x5C, CHR 0x5C]
                        else if c = CHR 0x22 then [CHR 0x5C, CHR 0x22]
                        else [c]) s)"

definition CreatePart :: "(string \<times> string) list \<Rightarrow> Writer \<Rightarrow> error + Writer" where
  "CreatePart hs wr =
     Inr (wr\<lparr>wbuf := wbuf wr
                  @ (if lastpart wr then CRLF else [])
                  @ ''--'' @ wboundary wr @ CRLF
                  @ concat (map (\<lambda>(k, v). k @ '': '' @ v @ CRLF) hs)
                  @ CRLF,
              lastpart := True\<rparr>)"

definition partWrite :: "string \<Rightarrow> Writer \<Rightarrow> error + Writer" where
  "partWrite d wr = Inr (wr\<lparr>wbuf := wbuf wr @ d\<rparr>)"

definition CreateFormField :: "string \<Rightarrow> Writer \<Rightarrow> error + Writer" where
  "CreateFormField fieldname wr =
     CreatePart
       [(''Content-Disposition'',
         ''form-data; name='' @ [CHR 0x22] @ escapeQuotes fieldname @ [CHR 0x22])] wr"

definition WriteField :: "string \<Rightarrow> string \<Rightarrow> Writer \<Rightarrow> error + Writer" where
  "WriteField fieldname v wr =
     (case CreateFormField fieldname wr of
        Inl e \<Rightarrow> Inl e
      | Inr wr' \<Rightarrow> partWrite v wr')"

definition CreateFormFile :: "string \<Rightarrow> string \<Rightarrow> Writer \<Rightarrow> error + Writer" where
  "CreateFormFile fieldname filename wr =
     CreatePart
       [(''Content-Disposition'',
         ''form-data; name='' @ [CHR 0x22] @ escapeQuotes fieldname @ [CHR 0x22]
           @ ''; filename='' @ [CHR 0x22] @ escapeQuotes filename @ [CHR 0x22]),
        (''Content-Type'', ''application/octet-stream'')] wr"

definition FormDataContentType :: "Writer \<Rightarrow> string" where
  "FormDataContentType wr = ''multipart/form-data; boundary='' @ wboundary wr"

definition Close :: "Writer \<Rightarrow> Writer" where
  "Close wr =
     wr\<lparr>wbuf := wbuf wr @ CRLF @ ''--'' @ wboundary wr @ ''--'' @ CRLF, lastpart := False\<rparr>"

text \<open>
  \<^verbatim>\<open>io.Copy(formFile, srcFile)\<close> writes what it reads from the file into the part and
  returns the error that ended the reading, if any.
\<close>

definition ioCopy :: "os_file \<Rightarrow> Writer \<Rightarrow> Writer \<times> error option" where
  "ioCopy f wr =
     (case partWrite (file_bytes f) wr of
        Inl e \<Rightarrow> (wr, Some e)
      | Inr wr' \<Rightarrow> (wr', file_read_err f))"

definition FormatBool :: "bool \<Rightarrow> string" where
  "FormatBool b = (if b then ''true'' else ''false'')"

text \<open>
  \<^verbatim>\<open>UploadPOEFile\<close>. The source ignores the error of \<^verbatim>\<open>writer.Close()\<close>; the deferred
  \<^verbatim>\<open>srcFile.Close()\<close> runs after the deferred closing of the response body.
\<close>

definition UploadPOEFile ::
  "('b, 'r) WalletClient \<Rightarrow> header \<Rightarrow> string \<Rightarrow> string \<Rightarrow> bool \<Rightarrow> 'r outcome" where
  "UploadPOEFile w hdr poeID poeFile readOnly =
     (if poeID = '''' then failed (Errorf ''poe id must be set when uploading poe file'') []
      else if poeFile = '''' then
        failed (Errorf ''poe file must be set when uploading poe file'') []
      else
        let writer = NewWriter (randomBoundary w) in
        (case WriteField (OffchainPOEID w) poeID writer of
           Inl e \<Rightarrow> failed e []
         | Inr writer \<Rightarrow>
        (case WriteField (OffchainReadOnly w) (FormatBool readOnly) writer of
           Inl e \<Rightarrow> failed e []
         | Inr writer \<Rightarrow>
        (case CreateFormFile (OffchainPOEFile w) poeFile writer of
           Inl e \<Rightarrow> failed e []
         | Inr writer \<Rightarrow>
        (case osOpen w poeFile of
           Inl e \<Rightarrow> failed e [EvOpen poeFile]
         | Inr srcFile \<Rightarrow>
             deferred [EvFileClose]
               (case ioCopy srcFile writer of
                  (writer, Some e) \<Rightarrow> failed e [EvOpen poeFile]
                | (writer, None) \<Rightarrow>
                    let contentType = FormDataContentType writer;
                        writer = Close writer;
                        r = NewRequest ''POST'' ''/v1/poe/upload'';
                        r = SetHeaders hdr r;
                        r = SetHeader ''Content-Type'' contentType r;
                        r = SetBody (RawBody (wbuf writer)) r
                    in after [EvOpen poeFile, EvNewRequest ''POST'' ''/v1/poe/upload'']
                         (sendAndDecode w r)))))))"

section \<open>What the properties speak about\<close>

text \<open>
  \<open>sent r out\<close>: the run handed the request \<open>r\<close> to the transport.
  \<open>fails_with e out\<close>: the run returned the error \<open>e\<close> and a nil result.
  \<open>steps out\<close>: the transport send and the two JSON decodings of the run, in order.
  \<open>signings out\<close>: the calls of \<^verbatim>\<open>buildSignatureBody\<close> with the bytes signed.
  \<open>no_request out\<close>: the run has neither built nor sent a request.
\<close>

definition sent :: "request \<Rightarrow> 'r outcome \<Rightarrow> bool" where
  "sent r out \<longleftrightarrow> EvDoRequest r \<in> set (ret_trace out)"

definition fails_with :: "error \<Rightarrow> 'r outcome \<Rightarrow> bool" where
  "fails_with e out \<longleftrightarrow> ret_err out = Some e \<and> ret_result out = None"

fun is_step :: "event \<Rightarrow> bool" where
  "is_step (EvDoRequest r) = True"
| "is_step (EvDecodeBody resp) = True"
| "is_step (EvUnmarshal s) = True"
| "is_step e = False"

definition steps :: "'r outcome \<Rightarrow> event list" where
  "steps out = filter is_step (ret_trace out)"

fun signed_bytes :: "event list \<Rightarrow> (SignatureParam option \<times> string) list" where
  "signed_bytes [] = []"
| "signed_bytes (EvBuildSignature sp p # evs) = (sp, p) # signed_bytes evs"
| "signed_bytes (e # evs) = signed_bytes evs"

definition signings :: "'r outcome \<Rightarrow> (SignatureParam option \<times> string) list" where
  "signings out = signed_bytes (ret_trace out)"

fun is_request :: "event \<Rightarrow> bool" where
  "is_request (EvNewRequest m p) = True"
| "is_request (EvDoRequest r) = True"
| "is_request e = False"

definition no_request :: "'r outcome \<Rightarrow> bool" where
  "no_request out \<longleftrightarrow> filter is_request (ret_trace out) = []"

text \<open>
  The decoding of the response to \<open>r\<close>, step by step: the transport error or the
  status other than 200 ends it; then the error of the envelope decoding; then an error
  code other than the success code; then a payload that is not a string; then the
  unmarshalling of the payload string, whose result and error are returned. A step that
  ends the decoding leaves the later decodings out of \<open>steps\<close>.
\<close>

definition five_steps :: "('b, 'r) WalletClient \<Rightarrow> request \<Rightarrow> 'r outcome \<Rightarrow> bool" where
  "five_steps w r out \<longleftrightarrow>
     (\<forall>e. DoRequest w r = Inl e \<longrightarrow> fails_with e out \<and> steps out = [EvDoRequest r]) \<and>
     (\<forall>resp. DoRequest w r = Inr resp \<and> StatusCode resp \<noteq> 200 \<longrightarrow>
        fails_with (UnexpectedResponseCode (StatusCode resp) (Body resp)) out \<and>
        steps out = [EvDoRequest r]) \<and>
     (\<forall>resp. DoRequest w r = Inr resp \<and> StatusCode resp = 200 \<longrightarrow>
        (\<forall>e. DecodeBody w resp = Inl e \<longrightarrow>
           fails_with e out \<and> steps out = [EvDoRequest r, EvDecodeBody resp]) \<and>
        (\<forall>env. DecodeBody w resp = Inr env \<longrightarrow>
           (ErrCode env \<noteq> SuccCode w \<longrightarrow>
              fails_with (CodedError (ErrCode env) (ErrMessage env)) out \<and>
              steps out = [EvDoRequest r, EvDecodeBody resp]) \<and>
           (ErrCode env = SuccCode w \<longrightarrow>
              ((\<forall>s. RPayload env \<noteq> VString s) \<longrightarrow>
                 fails_with
                   (Errorf (''response payload type invalid: '' @ TypeOf (RPayload env))) out \<and>
                 steps out = [EvDoRequest r, EvDecodeBody resp]) \<and>
              (\<forall>s. RPayload env = VString s \<longrightarrow>
                 (ret_result out, ret_err out) = jsonUnmarshal w s \<and>
                 steps out = [EvDoRequest r, EvDecodeBody resp, EvUnmarshal s]))))"

definition decodes_in_five_steps :: "('b, 'r) WalletClient \<Rightarrow> 'r outcome \<Rightarrow> bool" where
  "decodes_in_five_steps w out \<longleftrightarrow> (\<forall>r. sent r out \<longrightarrow> five_steps w r out)"

text \<open>
  The bytes signed are the bytes sent: a run that sends \<open>r\<close> has signed once, and
  \<open>r\<close> carries the envelope made of the very bytes signed and of the signature made
  from them.
\<close>

definition signed_is_sent :: "('b, 'r) WalletClient \<Rightarrow> 'r outcome \<Rightarrow> bool" where
  "signed_is_sent w out \<longleftrightarrow>
     (\<forall>r. sent r out \<longrightarrow>
        (\<exists>sp payload sign.
           signings out = [(sp, payload)] \<and>
           buildSignatureBody w sp payload = Inr sign \<and>
           req_body r = Some (JSONBody \<lparr>Payload = payload, Signature = sign\<rparr>)))"

text \<open>
  The same client whose envelope decoder hands back the payload \<open>p\<close> in place of the
  one it decoded.
\<close>

definition with_payload :: "iface \<Rightarrow> ('b, 'r) WalletClient \<Rightarrow> ('b, 'r) WalletClient" where
  "with_payload p w =
     w\<lparr>DecodeBody :=
         (\<lambda>resp. case DecodeBody w resp of
                    Inl e \<Rightarrow> Inl e
                  | Inr env \<Rightarrow> Inr (env\<lparr>RPayload := p\<rparr>))\<rparr>"

text \<open>
  An operation \<open>run\<close>, as a function of the client: when the envelope decoded from the
  response carries an error code other than the success code, the run fails with the
  coded error of this code and message, does not unmarshal, and is the same run
  whatever payload the envelope carries.
\<close>

definition remote_error_verbatim ::
  "(('b, 'r) WalletClient \<Rightarrow> 'r outcome) \<Rightarrow> ('b, 'r) WalletClient \<Rightarrow> bool" where
  "remote_error_verbatim run w \<longleftrightarrow>
     (\<forall>r resp env.
        sent r (run w) \<and> DoRequest w r = Inr resp \<and> StatusCode resp = 200 \<and>
        DecodeBody w resp = Inr env \<and> ErrCode env \<noteq> SuccCode w \<longrightarrow>
        fails_with (CodedError (ErrCode env) (ErrMessage env)) (run w) \<and>
        (\<forall>s. EvUnmarshal s \<notin> set (ret_trace (run w))) \<and>
        (\<forall>p. run (with_payload p w) = run w))"

definition payload_type_invalid :: "('b, 'r) WalletClient \<Rightarrow> 'r outcome \<Rightarrow> bool" where
  "payload_type_invalid w out \<longleftrightarrow>
     (\<forall>r resp env.
        sent r out \<and> DoRequest w r = Inr resp \<and> StatusCode resp = 200 \<and>
        DecodeBody w resp = Inr env \<and> ErrCode env = SuccCode w \<and>
        RPayload env \<noteq> VNil \<and> (\<forall>s. RPayload env \<noteq> VString s) \<longrightarrow>
        fails_with (Errorf (''response payload type invalid: '' @ TypeOf (RPayload env))) out \<and>
        TypeOf (RPayload env) \<in> {''bool'', ''float64'', ''[]interface {}'', ''map[string]interface {}''} \<and>
        (\<forall>s. EvUnmarshal s \<notin> set (ret_trace out)))"

definition payload_absent_invalid :: "('b, 'r) WalletClient \<Rightarrow> 'r outcome \<Rightarrow> bool" where
  "payload_absent_invalid w out \<longleftrightarrow>
     (\<forall>r resp env.
        sent r out \<and> DoRequest w r = Inr resp \<and> StatusCode resp = 200 \<and>
        DecodeBody w resp = Inr env \<and> ErrCode env = SuccCode w \<and> RPayload env = VNil \<longrightarrow>
        fails_with (Errorf ''response payload type invalid: <nil>'') out \<and>
        (\<forall>s. EvUnmarshal s \<notin> set (ret_trace out)))"

text \<open>
  An operation \<open>run\<close>, as a function of the header: two runs that got the same answer
  from the transport return the same result and the same error, and each has sent the
  header it was given.
\<close>

definition header_pass_through ::
  "('b, 'r) WalletClient \<Rightarrow> (header \<Rightarrow> 'r outcome) \<Rightarrow> bool" where
  "header_pass_through w run \<longleftrightarrow>
     (\<forall>h1 h2 r1 r2.
        sent r1 (run h1) \<and> sent r2 (run h2) \<and> DoRequest w r1 = DoRequest w r2 \<longrightarrow>
        ret_result (run h1) = ret_result (run h2) \<and> ret_err (run h1) = ret_err (run h2) \<and>
        req_headers r1 = h1 \<and> req_headers r2 = h2)"

text \<open>The parts of a multipart body, as the writer lays them out.\<close>

definition form_field :: "string \<Rightarrow> string \<Rightarrow> string \<Rightarrow> string" where
  "form_field b name v =
     ''--'' @ b @ CRLF
     @ ''Content-Disposition: form-data; name='' @ [CHR 0x22] @ escapeQuotes name @ [CHR 0x22]
     @ CRLF @ CRLF @ v"

definition form_file :: "string \<Rightarrow> string \<Rightarrow> string \<Rightarrow> string \<Rightarrow> string" where
  "form_file b name filename bytes =
     ''--'' @ b @ CRLF
     @ ''Content-Disposition: form-data; name='' @ [CHR 0x22] @ escapeQuotes name @ [CHR 0x22]
     @ ''; filename='' @ [CHR 0x22] @ escapeQuotes filename @ [CHR 0x22] @ CRLF
     @ ''Content-Type: application/octet-stream'' @ CRLF @ CRLF @ bytes"

definition terminating_boundary :: "string \<Rightarrow> string" where
  "terminating_boundary b = CRLF @ ''--'' @ b @ ''--'' @ CRLF"

text \<open>
  A signing operation \<open>out\<close> on the body \<open>b\<close>: when the signing of the marshalled
  body with the parameters \<open>sp\<close> fails, the run returns this error and has neither
  built nor sent a request.
\<close>

definition signing_failure_stops ::
  "('b, 'r) WalletClient \<Rightarrow> 'b \<Rightarrow> SignatureParam option \<Rightarrow> 'r outcome \<Rightarrow> bool" where
  "signing_failure_stops w b sp out \<longleftrightarrow>
     (\<forall>payload e.
        jsonMarshal w b = Inr payload \<and> buildSignatureBody w sp payload = Inl e \<longrightarrow>
        fails_with e out \<and> no_request out)"

section \<open>A client to run the operations on\<close>

text \<open>
  A client whose bodies and results are strings: it marshals a body to itself, signs
  with any parameters but nil, reads one file, answers every request with status 200 and
  decodes the text of the response to a success envelope. The variants answer with an
  envelope of their own.
\<close>

definition demo_sign :: "SignatureParam option \<Rightarrow> string \<Rightarrow> error + SignatureBody option" where
  "demo_sign sp payload =
     (case sp of
        None \<Rightarrow> Inl (LibError ''signature params invalid'')
      | Some k \<Rightarrow>
          Inr (Some \<lparr>SigCreator = Creator k, SigNonce = Nonce k,
                     SignatureValue = ''sig:'' @ payload, SignatureAlg = ''ed25519''\<rparr>))"

definition demo :: "(string, string) WalletClient" where
  "demo =
     \<lparr>DoRequest = (\<lambda>r. Inr \<lparr>StatusCode = 200, Body = ''envelope''\<rparr>),
      w_s = None,
      queryPrivateKey = (\<lambda>h sp. Inl (LibError ''key not found'')),
      buildSignatureBody = demo_sign,
      jsonMarshal = (\<lambda>b. Inr b),
      DecodeBody = (\<lambda>resp. Inr \<lparr>ErrCode = 0, ErrMessage = '''', RPayload = VString ''{}''\<rparr>),
      jsonUnmarshal = (\<lambda>s. (Some s, None)),
      osOpen = (\<lambda>p. if p = ''a.txt'' then Inr \<lparr>file_bytes = ''abc'', file_read_err = None\<rparr>
                     else Inl (LibError ''no such file or directory'')),
      randomBoundary = ''XX'',
      SuccCode = 0,
      OffchainPOEID = ''poe_id'',
      OffchainReadOnly = ''read_only'',
      OffchainPOEFile = ''poe_file''\<rparr>"

definition demo_answering :: "Response \<Rightarrow> (string, string) WalletClient" where
  "demo_answering env = demo\<lparr>DecodeBody := (\<lambda>resp. Inr env)\<rparr>"

definition alice :: SignatureParam where
  "alice = \<lparr>Creator = ''did:axn:alice'', Nonce = ''nonce'', PrivateKey = ''key''\<rparr>"

text \<open>
  \<open>answers w r out\<close>: the run returns what the sending of \<open>r\<close> and the decoding of
  its response return, and has done their steps.
\<close>

definition answers :: "('b, 'r) WalletClient \<Rightarrow> request \<Rightarrow> 'r outcome \<Rightarrow> bool" where
  "answers w r out \<longleftrightarrow>
     ret_result out = ret_result (sendAndDecode w r) \<and>
     ret_err out = ret_err (sendAndDecode w r) \<and>
     steps out = steps (sendAndDecode w r)"

text \<open>
  \<open>custody_failure_stops\<close>: when the key custody client is there and its lookup
  fails, the run returns this error and has neither built nor sent a request.
  \<open>resolved w hdr sp sp'\<close>: \<open>sp'\<close> are the signature parameters the run signs with,
  those given when there is no key custody client, those looked up otherwise.
\<close>

definition custody_failure_stops ::
  "('b, 'r) WalletClient \<Rightarrow> header \<Rightarrow> SignatureParam option \<Rightarrow> 'r outcome \<Rightarrow> bool" where
  "custody_failure_stops w hdr sp out \<longleftrightarrow>
     (\<forall>e. w_s w \<noteq> None \<and> queryPrivateKey w hdr sp = Inl e \<longrightarrow> fails_with e out \<and> no_request out)"

definition resolved ::
  "('b, 'r) WalletClient \<Rightarrow> header \<Rightarrow> SignatureParam option \<Rightarrow> SignatureParam option \<Rightarrow> bool" where
  "resolved w hdr sp sp' \<longleftrightarrow>
     (if w_s w \<noteq> None then queryPrivateKey w hdr sp = Inr sp' else sp' = sp)"

definition demo_issue_request :: request where
  "demo_issue_request =
     \<lparr>req_method = ''POST'', req_path = ''/v1/transaction/tokens/issue'',
      req_headers = Map.empty, req_header_sets = [], req_params = [],
      req_body = Some (JSONBody \<lparr>Payload = ''{}'', Signature = None\<rparr>)\<rparr>"

definition demo_signed_request :: request where
  "demo_signed_request =
     \<lparr>req_method = ''POST'', req_path = ''/v1/transaction/tokens/issue'',
      req_headers = Map.empty, req_header_sets = [], req_params = [],
      req_body = Some (JSONBody
        \<lparr>Payload = ''{}'',
         Signature = Some \<lparr>SigCreator = ''did:axn:alice'', SigNonce = ''nonce'',
                            SignatureValue = ''sig:{}'', SignatureAlg = ''ed25519''\<rparr>\<rparr>)\<rparr>"

definition demo_sync_request :: request where
  "demo_sync_request = demo_issue_request\<lparr>req_headers := [''Bc-Invoke-Mode'' \<mapsto> [''sync'']]\<rparr>"

definition demo_query_request :: request where
  "demo_query_request =
     \<lparr>req_method = ''GET'', req_path = ''/v1/poe'', req_headers = Map.empty,
      req_header_sets = [], req_params = [(''id'', '''')], req_body = None\<rparr>"

definition demo_upload_request :: request where
  "demo_upload_request =
     \<lparr>req_method = ''POST'', req_path = ''/v1/poe/upload'', req_headers = Map.empty,
      req_header_sets = [(''Content-Type'', ''multipart/form-data; boundary=XX'')],
      req_params = [],
      req_body = Some (RawBody
        (form_field ''XX'' ''poe_id'' ''poe-1'' @ CRLF
         @ form_field ''XX'' ''read_only'' ''true'' @ CRLF
         @ form_file ''XX'' ''poe_file'' ''a.txt'' ''abc''
         @ terminating_boundary ''XX''))\<rparr>"

definition rejected :: Response where
  "rejected = \<lparr>ErrCode = 5001, ErrMessage = ''insufficient balance'', RPayload = VString ''{}''\<rparr>"

definition drifted :: Response where
  "drifted = \<lparr>ErrCode = 0, ErrMessage = '''', RPayload = VMap [(''id'', VString ''poe-1'')]\<rparr>"

definition empty_handed :: Response where
  "empty_handed = \<lparr>ErrCode = 0, ErrMessage = '''', RPayload = VNil\<rparr>"

section \<open>Returning and the trace\<close>

lemma failed_sel [simp]:
  "ret_result (failed e tr) = None" "ret_err (failed e tr) = Some e" "ret_trace (failed e tr) = tr"
  by (simp_all add: failed_def)

lemma after_sel [simp]:
  "ret_result (after evs out) = ret_result out" "ret_err (after evs out) = ret_err out"
  "ret_trace (after evs out) = evs @ ret_trace out"
  by (simp_all add: after_def)

lemma deferred_sel [simp]:
  "ret_result (deferred evs out) = ret_result out" "ret_err (deferred evs out) = ret_err out"
  "ret_trace (deferred evs out) = ret_trace out @ evs"
  by (simp_all add: deferred_def)

lemma sendAndDecode_five_steps: "five_steps w r (sendAndDecode w r)"
  unfolding five_steps_def sendAndDecode_def RequireOK_def fails_with_def steps_def
  by (auto split: sum.splits iface.splits simp: prod_eq_iff)

lemma sendAndDecode_sent [simp]: "EvDoRequest r' \<in> set (ret_trace (sendAndDecode w r)) \<longleftrightarrow> r' = r"
  unfolding sendAndDecode_def RequireOK_def
  by (auto split: sum.splits iface.splits)

lemma sendAndDecode_signed [simp]: "signed_bytes (ret_trace (sendAndDecode w r)) = []"
  unfolding sendAndDecode_def RequireOK_def
  by (auto split: sum.splits iface.splits)

lemma signed_bytes_append [simp]: "signed_bytes (xs @ ys) = signed_bytes xs @ signed_bytes ys"
  by (induction xs rule: signed_bytes.induct) simp_all

lemma sendAndDecode_answers: "answers w r (sendAndDecode w r)"
  by (simp add: answers_def)

lemma answers_after:
  "filter is_step evs = [] \<Longrightarrow> answers w r out \<Longrightarrow> answers w r (after evs out)"
  by (simp add: answers_def steps_def)

lemma answers_deferred:
  "filter is_step evs = [] \<Longrightarrow> answers w r out \<Longrightarrow> answers w r (deferred evs out)"
  by (simp add: answers_def steps_def)

lemma answers_five_steps:
  assumes "answers w r out"
  shows "five_steps w r out"
proof -
  have eqs: "ret_result out = ret_result (sendAndDecode w r)"
    "ret_err out = ret_err (sendAndDecode w r)" "steps out = steps (sendAndDecode w r)"
    using assms by (simp_all add: answers_def)
  show ?thesis
    using sendAndDecode_five_steps [of w r]
    unfolding five_steps_def fails_with_def eqs .
qed

lemma unmarshal_in_steps:
  "EvUnmarshal s \<in> set (ret_trace out) \<longleftrightarrow> EvUnmarshal s \<in> set (steps out)"
  by (simp add: steps_def)

lemma sendAndDecode_same_answer:
  "DoRequest w r1 = DoRequest w r2 \<Longrightarrow>
   ret_result (sendAndDecode w r1) = ret_result (sendAndDecode w r2) \<and>
   ret_err (sendAndDecode w r1) = ret_err (sendAndDecode w r2)"
  unfolding sendAndDecode_def
  by (auto split: sum.splits iface.splits)

lemma sendAndDecode_with_payload:
  "DoRequest w r = Inr resp \<Longrightarrow> StatusCode resp = 200 \<Longrightarrow> DecodeBody w resp = Inr env \<Longrightarrow>
   ErrCode env \<noteq> SuccCode w \<Longrightarrow> sendAndDecode (with_payload p w) r = sendAndDecode w r"
  unfolding sendAndDecode_def with_payload_def RequireOK_def
  by simp

section \<open>The operations, one by one\<close>

lemma sent_failed [simp]: "sent r (failed e tr) \<longleftrightarrow> EvDoRequest r \<in> set tr"
  by (simp add: sent_def)

lemma sent_after [simp]: "sent r (after evs out) \<longleftrightarrow> EvDoRequest r \<in> set evs \<or> sent r out"
  by (simp add: sent_def)

lemma sent_deferred [simp]:
  "sent r (deferred evs out) \<longleftrightarrow> sent r out \<or> EvDoRequest r \<in> set evs"
  by (simp add: sent_def)

lemma sent_sendAndDecode [simp]: "sent r' (sendAndDecode w r) \<longleftrightarrow> r' = r"
  by (simp add: sent_def)

lemma signings_failed [simp]: "signings (failed e tr) = signed_bytes tr"
  by (simp add: signings_def)

lemma signings_after [simp]: "signings (after evs out) = signed_bytes evs @ signings out"
  by (simp add: signings_def)

lemma signings_deferred [simp]: "signings (deferred evs out) = signings out @ signed_bytes evs"
  by (simp add: signings_def)

lemma signings_sendAndDecode [simp]: "signings (sendAndDecode w r) = []"
  by (simp add: signings_def)

lemma fails_with_failed [simp]: "fails_with e' (failed e tr) \<longleftrightarrow> e' = e"
  by (auto simp: fails_with_def)

lemma no_request_failed [simp]: "no_request (failed e tr) \<longleftrightarrow> filter is_request tr = []"
  by (simp add: no_request_def)

lemma with_payload_sel [simp]:
  "DoRequest (with_payload p w) = DoRequest w"
  "w_s (with_payload p w) = w_s w"
  "queryPrivateKey (with_payload p w) = queryPrivateKey w"
  "buildSignatureBody (with_payload p w) = buildSignatureBody w"
  "jsonMarshal (with_payload p w) = jsonMarshal w"
  "jsonUnmarshal (with_payload p w) = jsonUnmarshal w"
  "osOpen (with_payload p w) = osOpen w"
  "randomBoundary (with_payload p w) = randomBoundary w"
  "SuccCode (with_payload p w) = SuccCode w"
  "OffchainPOEID (with_payload p w) = OffchainPOEID w"
  "OffchainReadOnly (with_payload p w) = OffchainReadOnly w"
  "OffchainPOEFile (with_payload p w) = OffchainPOEFile w"
  by (simp_all add: with_payload_def)

lemmas request_defs = NewRequest_def SetHeaders_def SetHeader_def SetParam_def SetBody_def

subsection \<open>\<^verbatim>\<open>IssueCToken\<close>\<close>

lemma IssueCToken_answers:
  "sent r (IssueCToken w hdr body sign) \<Longrightarrow> answers w r (IssueCToken w hdr body sign) \<and> req_headers r = hdr"
  unfolding IssueCToken_def
  by (auto simp: Let_def request_defs intro!: answers_after sendAndDecode_answers
      split: option.splits sum.splits if_splits)

lemma IssueCToken_with_payload:
  "sent r (IssueCToken w hdr body sign) \<Longrightarrow> DoRequest w r = Inr resp \<Longrightarrow> StatusCode resp = 200 \<Longrightarrow>
   DecodeBody w resp = Inr env \<Longrightarrow> ErrCode env \<noteq> SuccCode w \<Longrightarrow>
   IssueCToken (with_payload p w) hdr body sign = IssueCToken w hdr body sign"
  unfolding IssueCToken_def
  by (auto simp: Let_def sendAndDecode_with_payload split: option.splits sum.splits if_splits)

lemma IssueCToken_sent_body:
  "sent r (IssueCToken w hdr body sign) \<Longrightarrow>
     \<exists>b p. body = Some b \<and> jsonMarshal w b = Inr p \<and>
       req_body r = Some (JSONBody \<lparr>Payload = p, Signature = sign\<rparr>) \<and>
       signings (IssueCToken w hdr body sign) = []"
  unfolding IssueCToken_def
  by (auto simp: Let_def request_defs split: option.splits sum.splits)

lemma IssueCToken_nil_body: "\<not> sent r (IssueCToken w hdr None sign)"
  unfolding IssueCToken_def by simp

subsection \<open>\<^verbatim>\<open>IssueCTokenSign\<close>\<close>

lemma IssueCTokenSign_answers:
  "sent r (IssueCTokenSign w hdr body sp) \<Longrightarrow> answers w r (IssueCTokenSign w hdr body sp) \<and> req_headers r = hdr"
  unfolding IssueCTokenSign_def
  by (auto simp: IssueCToken_answers intro!: answers_after split: option.splits sum.splits)

lemma IssueCTokenSign_with_payload:
  "sent r (IssueCTokenSign w hdr body sp) \<Longrightarrow> DoRequest w r = Inr resp \<Longrightarrow> StatusCode resp = 200 \<Longrightarrow>
   DecodeBody w resp = Inr env \<Longrightarrow> ErrCode env \<noteq> SuccCode w \<Longrightarrow>
   IssueCTokenSign (with_payload p w) hdr body sp = IssueCTokenSign w hdr body sp"
  unfolding IssueCTokenSign_def
  by (auto simp: IssueCToken_with_payload split: option.splits sum.splits)

lemma IssueCTokenSign_signed: "signed_is_sent w (IssueCTokenSign w hdr body sp)"
  unfolding IssueCTokenSign_def signed_is_sent_def
  by (auto dest!: IssueCToken_sent_body split: option.splits sum.splits)

lemma IssueCTokenSign_signing_failure: "signing_failure_stops w b sp (IssueCTokenSign w hdr (Some b) sp)"
  unfolding IssueCTokenSign_def signing_failure_stops_def
  by simp

subsection \<open>\<^verbatim>\<open>IssueAsset\<close>\<close>

lemma IssueAsset_answers:
  "sent r (IssueAsset w hdr body sign) \<Longrightarrow> answers w r (IssueAsset w hdr body sign) \<and> req_headers r = hdr"
  unfolding IssueAsset_def
  by (auto simp: Let_def request_defs intro!: answers_after sendAndDecode_answers
      split: option.splits sum.splits if_splits)

lemma IssueAsset_with_payload:
  "sent r (IssueAsset w hdr body sign) \<Longrightarrow> DoRequest w r = Inr resp \<Longrightarrow> StatusCode resp = 200 \<Longrightarrow>
   DecodeBody w resp = Inr env \<Longrightarrow> ErrCode env \<noteq> SuccCode w \<Longrightarrow>
   IssueAsset (with_payload p w) hdr body sign = IssueAsset w hdr body sign"
  unfolding IssueAsset_def
  by (auto simp: Let_def sendAndDecode_with_payload split: option.splits sum.splits if_splits)

lemma IssueAsset_sent_body:
  "sent r (IssueAsset w hdr body sign) \<Longrightarrow>
     \<exists>b p. body = Some b \<and> jsonMarshal w b = Inr p \<and>
       req_body r = Some (JSONBody \<lparr>Payload = p, Signature = sign\<rparr>) \<and>
       signings (IssueAsset w hdr body sign) = []"
  unfolding IssueAsset_def
  by (auto simp: Let_def request_defs split: option.splits sum.splits)

lemma IssueAsset_nil_body: "\<not> sent r (IssueAsset w hdr None sign)"
  unfolding IssueAsset_def by simp

subsection \<open>\<^verbatim>\<open>IssueAssetSign\<close>\<close>

lemma IssueAssetSign_answers:
  "sent r (IssueAssetSign w hdr body sp) \<Longrightarrow> answers w r (IssueAssetSign w hdr body sp) \<and> req_headers r = hdr"
  unfolding IssueAssetSign_def
  by (auto simp: IssueAsset_answers intro!: answers_after split: option.splits sum.splits)

lemma IssueAssetSign_with_payload:
  "sent r (IssueAssetSign w hdr body sp) \<Longrightarrow> DoRequest w r = Inr resp \<Longrightarrow> StatusCode resp = 200 \<Longrightarrow>
   DecodeBody w resp = Inr env \<Longrightarrow> ErrCode env \<noteq> SuccCode w \<Longrightarrow>
   IssueAssetSign (with_payload p w) hdr body sp = IssueAssetSign w hdr body sp"
  unfolding IssueAssetSign_def
  by (auto simp: IssueAsset_with_payload split: option.splits sum.splits)

lemma IssueAssetSign_signed: "signed_is_sent w (IssueAssetSign w hdr body sp)"
  unfolding IssueAssetSign_def signed_is_sent_def
  by (auto dest!: IssueAsset_sent_body split: option.splits sum.splits)

lemma IssueAssetSign_signing_failure: "signing_failure_stops w b sp (IssueAssetSign w hdr (Some b) sp)"
  unfolding IssueAssetSign_def signing_failure_stops_def
  by simp

subsection \<open>\<^verbatim>\<open>TransferCToken\<close>\<close>

lemma TransferCToken_answers:
  "sent r (TransferCToken w hdr body sign) \<Longrightarrow> answers w r (TransferCToken w hdr body sign) \<and> req_headers r = hdr"
  unfolding TransferCToken_def
  by (auto simp: Let_def request_defs intro!: answers_after sendAndDecode_answers
      split: option.splits sum.splits if_splits)

lemma TransferCToken_with_payload:
  "sent r (TransferCToken w hdr body sign) \<Longrightarrow> DoRequest w r = Inr resp \<Longrightarrow> StatusCode resp = 200 \<Longrightarrow>
   DecodeBody w resp = Inr env \<Longrightarrow> ErrCode env \<noteq> SuccCode w \<Longrightarrow>
   TransferCToken (with_payload p w) hdr body sign = TransferCToken w hdr body sign"
  unfolding TransferCToken_def
  by (auto simp: Let_def sendAndDecode_with_payload split: option.splits sum.splits if_splits)

lemma TransferCToken_sent_body:
  "sent r (TransferCToken w hdr body sign) \<Longrightarrow>
     \<exists>b p. body = Some b \<and> jsonMarshal w b = Inr p \<and>
       req_body r = Some (JSONBody \<lparr>Payload = p, Signature = sign\<rparr>) \<and>
       signings (TransferCToken w hdr body sign) = []"
  unfolding TransferCToken_def
  by (auto simp: Let_def request_defs split: option.splits sum.splits)

lemma TransferCToken_nil_body: "\<not> sent r (TransferCToken w hdr None sign)"
  unfolding TransferCToken_def by simp

subsection \<open>\<^verbatim>\<open>TransferCTokenSign\<close>\<close>

lemma TransferCTokenSign_answers:
  "sent r (TransferCTokenSign w hdr body sp) \<Longrightarrow> answers w r (TransferCTokenSign w hdr body sp) \<and> req_headers r = hdr"
  unfolding TransferCTokenSign_def
  by (auto simp: TransferCToken_answers intro!: answers_after split: option.splits sum.splits)

lemma TransferCTokenSign_with_payload:
  "sent r (TransferCTokenSign w hdr body sp) \<Longrightarrow> DoRequest w r = Inr resp \<Longrightarrow> StatusCode resp = 200 \<Longrightarrow>
   DecodeBody w resp = Inr env \<Longrightarrow> ErrCode env \<noteq> SuccCode w \<Longrightarrow>
   TransferCTokenSign (with_payload p w) hdr body sp = TransferCTokenSign w hdr body sp"
  unfolding TransferCTokenSign_def
  by (auto simp: TransferCToken_with_payload split: option.splits sum.splits)

lemma TransferCTokenSign_signed: "signed_is_sent w (TransferCTokenSign w hdr body sp)"
  unfolding TransferCTokenSign_def signed_is_sent_def
  by (auto dest!: TransferCToken_sent_body split: option.splits sum.splits)

lemma TransferCTokenSign_signing_failure: "signing_failure_stops w b sp (TransferCTokenSign w hdr (Some b) sp)"
  unfolding TransferCTokenSign_def signing_failure_stops_def
  by simp

subsection \<open>\<^verbatim>\<open>TransferAsset\<close>\<close>

lemma TransferAsset_answers:
  "sent r (TransferAsset w hdr body sign) \<Longrightarrow> answers w r (TransferAsset w hdr body sign) \<and> req_headers r = hdr"
  unfolding TransferAsset_def
  by (auto simp: Let_def request_defs intro!: answers_after sendAndDecode_answers
      split: option.splits sum.splits if_splits)

lemma TransferAsset_with_payload:
  "sent r (TransferAsset w hdr body sign) \<Longrightarrow> DoRequest w r = Inr resp \<Longrightarrow> StatusCode resp = 200 \<Longrightarrow>
   DecodeBody w resp = Inr env \<Longrightarrow> ErrCode env \<noteq> SuccCode w \<Longrightarrow>
   TransferAsset (with_payload p w) hdr body sign = TransferAsset w hdr body sign"
  unfolding TransferAsset_def
  by (auto simp: Let_def sendAndDecode_with_payload split: option.splits sum.splits if_splits)

lemma TransferAsset_sent_body:
  "sent r (TransferAsset w hdr body sign) \<Longrightarrow>
     \<exists>b p. body = Some b \<and> jsonMarshal w b = Inr p \<and>
       req_body r = Some (JSONBody \<lparr>Payload = p, Signature = sign\<rparr>) \<and>
       signings (TransferAsset w hdr body sign) = []"
  unfolding TransferAsset_def
  by (auto simp: Let_def request_defs split: option.splits sum.splits)

lemma TransferAsset_nil_body: "\<not> sent r (TransferAsset w hdr None sign)"
  unfolding TransferAsset_def by simp

subsection \<open>\<^verbatim>\<open>TransferAssetSign\<close>\<close>

lemma TransferAssetSign_answers:
  "sent r (TransferAssetSign w hdr body sp) \<Longrightarrow> answers w r (TransferAssetSign w hdr body sp) \<and> req_headers r = hdr"
  unfolding TransferAssetSign_def
  by (auto simp: TransferAsset_answers intro!: answers_after split: option.splits sum.splits)

lemma TransferAssetSign_with_payload:
  "sent r (TransferAssetSign w hdr body sp) \<Longrightarrow> DoRequest w r = Inr resp \<Longrightarrow> StatusCode resp = 200 \<Longrightarrow>
   DecodeBody w resp = Inr env \<Longrightarrow> ErrCode env \<noteq> SuccCode w \<Longrightarrow>
   TransferAssetSign (with_payload p w) hdr body sp = TransferAssetSign w hdr body sp"
  unfolding TransferAssetSign_def
  by (auto simp: TransferAsset_with_payload split: option.splits sum.splits)

lemma TransferAssetSign_signed: "signed_is_sent w (TransferAssetSign w hdr body sp)"
  unfolding TransferAssetSign_def signed_is_sent_def
  by (auto dest!: TransferAsset_sent_body split: option.splits sum.splits)

lemma TransferAssetSign_signing_failure: "signing_failure_stops w b sp (TransferAssetSign w hdr (Some b) sp)"
  unfolding TransferAssetSign_def signing_failure_stops_def
  by simp

subsection \<open>\<^verbatim>\<open>QueryTransactionLogs\<close>\<close>

lemma QueryTransactionLogs_answers:
  "sent r (QueryTransactionLogs w hdr ident txType) \<Longrightarrow> answers w r (QueryTransactionLogs w hdr ident txType) \<and> req_headers r = hdr"
  unfolding QueryTransactionLogs_def
  by (auto simp: Let_def request_defs intro!: answers_after sendAndDecode_answers
      split: option.splits sum.splits if_splits)

lemma QueryTransactionLogs_with_payload:
  "sent r (QueryTransactionLogs w hdr ident txType) \<Longrightarrow> DoRequest w r = Inr resp \<Longrightarrow> StatusCode resp = 200 \<Longrightarrow>
   DecodeBody w resp = Inr env \<Longrightarrow> ErrCode env \<noteq> SuccCode w \<Longrightarrow>
   QueryTransactionLogs (with_payload p w) hdr ident txType = QueryTransactionLogs w hdr ident txType"
  unfolding QueryTransactionLogs_def
  by (auto simp: Let_def sendAndDecode_with_payload split: option.splits sum.splits if_splits)

subsection \<open>\<^verbatim>\<open>CreatePOE\<close>\<close>

lemma CreatePOE_answers:
  "sent r (CreatePOE w hdr body sp) \<Longrightarrow> answers w r (CreatePOE w hdr body sp) \<and> req_headers r = hdr"
  unfolding CreatePOE_def
  by (auto simp: Let_def request_defs intro!: answers_after sendAndDecode_answers
      split: option.splits sum.splits if_splits)

lemma CreatePOE_with_payload:
  "sent r (CreatePOE w hdr body sp) \<Longrightarrow> DoRequest w r = Inr resp \<Longrightarrow> StatusCode resp = 200 \<Longrightarrow>
   DecodeBody w resp = Inr env \<Longrightarrow> ErrCode env \<noteq> SuccCode w \<Longrightarrow>
   CreatePOE (with_payload p w) hdr body sp = CreatePOE w hdr body sp"
  unfolding CreatePOE_def
  by (auto simp: Let_def sendAndDecode_with_payload split: option.splits sum.splits if_splits)

lemma CreatePOE_signed: "signed_is_sent w (CreatePOE w hdr body sp)"
  unfolding CreatePOE_def signed_is_sent_def
  by (auto simp: Let_def request_defs split: option.splits sum.splits if_splits)

lemma CreatePOE_custody_failure:
  "custody_failure_stops w hdr sp (CreatePOE w hdr (Some b) sp)"
  unfolding CreatePOE_def custody_failure_stops_def
  by simp

lemma CreatePOE_signing_failure:
  "resolved w hdr sp sp' \<Longrightarrow> signing_failure_stops w b sp' (CreatePOE w hdr (Some b) sp)"
  unfolding CreatePOE_def signing_failure_stops_def resolved_def
  by (auto simp: Let_def)

subsection \<open>\<^verbatim>\<open>UpdatePOE\<close>\<close>

lemma UpdatePOE_answers:
  "sent r (UpdatePOE w hdr body sp) \<Longrightarrow> answers w r (UpdatePOE w hdr body sp) \<and> req_headers r = hdr"
  unfolding UpdatePOE_def
  by (auto simp: Let_def request_defs intro!: answers_after sendAndDecode_answers
      split: option.splits sum.splits if_splits)

lemma UpdatePOE_with_payload:
  "sent r (UpdatePOE w hdr body sp) \<Longrightarrow> DoRequest w r = Inr resp \<Longrightarrow> StatusCode resp = 200 \<Longrightarrow>
   DecodeBody w resp = Inr env \<Longrightarrow> ErrCode env \<noteq> SuccCode w \<Longrightarrow>
   UpdatePOE (with_payload p w) hdr body sp = UpdatePOE w hdr body sp"
  unfolding UpdatePOE_def
  by (auto simp: Let_def sendAndDecode_with_payload split: option.splits sum.splits if_splits)

lemma UpdatePOE_signed: "signed_is_sent w (UpdatePOE w hdr body sp)"
  unfolding UpdatePOE_def signed_is_sent_def
  by (auto simp: Let_def request_defs split: option.splits sum.splits if_splits)

lemma UpdatePOE_custody_failure:
  "custody_failure_stops w hdr sp (UpdatePOE w hdr (Some b) sp)"
  unfolding UpdatePOE_def custody_failure_stops_def
  by simp

lemma UpdatePOE_signing_failure:
  "resolved w hdr sp sp' \<Longrightarrow> signing_failure_stops w b sp' (UpdatePOE w hdr (Some b) sp)"
  unfolding UpdatePOE_def signing_failure_stops_def resolved_def
  by (auto simp: Let_def)

subsection \<open>\<^verbatim>\<open>QueryPOE\<close>\<close>

lemma QueryPOE_answers:
  "sent r (QueryPOE w hdr ident) \<Longrightarrow> answers w r (QueryPOE w hdr ident) \<and> req_headers r = hdr"
  unfolding QueryPOE_def
  by (auto simp: Let_def request_defs intro!: answers_after sendAndDecode_answers
      split: option.splits sum.splits if_splits)

lemma QueryPOE_with_payload:
  "sent r (QueryPOE w hdr ident) \<Longrightarrow> DoRequest w r = Inr resp \<Longrightarrow> StatusCode resp = 200 \<Longrightarrow>
   DecodeBody w resp = Inr env \<Longrightarrow> ErrCode env \<noteq> SuccCode w \<Longrightarrow>
   QueryPOE (with_payload p w) hdr ident = QueryPOE w hdr ident"
  unfolding QueryPOE_def
  by (auto simp: Let_def sendAndDecode_with_payload split: option.splits sum.splits if_splits)

subsection \<open>\<^verbatim>\<open>UploadPOEFile\<close>\<close>

lemmas writer_defs = NewWriter_def WriteField_def CreateFormField_def CreatePart_def
  partWrite_def CreateFormFile_def FormDataContentType_def Close_def ioCopy_def

lemma UploadPOEFile_answers:
  "sent r (UploadPOEFile w hdr poeID poeFile readOnly) \<Longrightarrow>
     answers w r (UploadPOEFile w hdr poeID poeFile readOnly) \<and> req_headers r = hdr"
  unfolding UploadPOEFile_def
  by (auto simp: Let_def request_defs writer_defs
      intro!: answers_after answers_deferred sendAndDecode_answers
      split: option.splits sum.splits if_splits)

lemma UploadPOEFile_with_payload:
  "sent r (UploadPOEFile w hdr poeID poeFile readOnly) \<Longrightarrow> DoRequest w r = Inr resp \<Longrightarrow>
   StatusCode resp = 200 \<Longrightarrow> DecodeBody w resp = Inr env \<Longrightarrow> ErrCode env \<noteq> SuccCode w \<Longrightarrow>
   UploadPOEFile (with_payload p w) hdr poeID poeFile readOnly =
     UploadPOEFile w hdr poeID poeFile readOnly"
  unfolding UploadPOEFile_def
  by (auto simp: Let_def writer_defs sendAndDecode_with_payload
      split: option.splits sum.splits if_splits)

section \<open>The empty identifier of a query\<close>

lemma QueryTransactionLogs_empty_id:
  "fails_with (Errorf ''request id invalid'') (QueryTransactionLogs w hdr '''' txType) \<and>
   ret_trace (QueryTransactionLogs w hdr '''' txType) = []"
  by (simp add: QueryTransactionLogs_def)

section \<open>From the decoding of one response to the claims\<close>

lemma five_steps_remote_error:
  assumes "five_steps w r out" "DoRequest w r = Inr resp" "StatusCode resp = 200"
    "DecodeBody w resp = Inr env" "ErrCode env \<noteq> SuccCode w"
  shows "fails_with (CodedError (ErrCode env) (ErrMessage env)) out \<and>
    (\<forall>s. EvUnmarshal s \<notin> set (ret_trace out))"
proof -
  have "fails_with (CodedError (ErrCode env) (ErrMessage env)) out \<and>
      steps out = [EvDoRequest r, EvDecodeBody resp]"
    using assms unfolding five_steps_def by blast
  then show ?thesis
    by (simp add: unmarshal_in_steps)
qed

lemma five_steps_not_a_string:
  assumes "five_steps w r out" "DoRequest w r = Inr resp" "StatusCode resp = 200"
    "DecodeBody w resp = Inr env" "ErrCode env = SuccCode w" "\<forall>s. RPayload env \<noteq> VString s"
  shows "fails_with (Errorf (''response payload type invalid: '' @ TypeOf (RPayload env))) out \<and>
    (\<forall>s. EvUnmarshal s \<notin> set (ret_trace out))"
proof -
  have "fails_with (Errorf (''response payload type invalid: '' @ TypeOf (RPayload env))) out \<and>
      steps out = [EvDoRequest r, EvDecodeBody resp]"
    using assms unfolding five_steps_def by blast
  then show ?thesis
    by (simp add: unmarshal_in_steps)
qed

lemma TypeOf_present_not_string:
  "v \<noteq> VNil \<Longrightarrow> \<forall>s. v \<noteq> VString s \<Longrightarrow>
   TypeOf v \<in> {''bool'', ''float64'', ''[]interface {}'', ''map[string]interface {}''}"
  by (cases v) simp_all

lemma remote_error_verbatimI:
  assumes "\<And>r. sent r (run w) \<Longrightarrow> answers w r (run w)"
    and "\<And>r resp env p. sent r (run w) \<Longrightarrow> DoRequest w r = Inr resp \<Longrightarrow>
      StatusCode resp = 200 \<Longrightarrow> DecodeBody w resp = Inr env \<Longrightarrow>
      ErrCode env \<noteq> SuccCode w \<Longrightarrow> run (with_payload p w) = run w"
  shows "remote_error_verbatim run w"
  unfolding remote_error_verbatim_def
proof (intro allI impI, elim conjE)
  fix r resp env
  assume h: "sent r (run w)" "DoRequest w r = Inr resp" "StatusCode resp = 200"
    "DecodeBody w resp = Inr env" "ErrCode env \<noteq> SuccCode w"
  from h(1) have "five_steps w r (run w)"
    by (rule answers_five_steps [OF assms(1)])
  from five_steps_remote_error [OF this h(2-5)] assms(2) [OF h]
  show "fails_with (CodedError (ErrCode env) (ErrMessage env)) (run w) \<and>
    (\<forall>s. EvUnmarshal s \<notin> set (ret_trace (run w))) \<and> (\<forall>p. run (with_payload p w) = run w)"
    by simp
qed

lemma payload_type_invalidI:
  assumes "\<And>r. sent r out \<Longrightarrow> answers w r out"
  shows "payload_type_invalid w out"
  unfolding payload_type_invalid_def
proof (intro allI impI, elim conjE)
  fix r resp env
  assume h: "sent r out" "DoRequest w r = Inr resp" "StatusCode resp = 200"
    "DecodeBody w resp = Inr env" "ErrCode env = SuccCode w"
    and present: "RPayload env \<noteq> VNil" and other: "\<forall>s. RPayload env \<noteq> VString s"
  from h(1) have "five_steps w r out"
    by (rule answers_five_steps [OF assms])
  from five_steps_not_a_string [OF this h(2-5) other] TypeOf_present_not_string [OF present other]
  show "fails_with (Errorf (''response payload type invalid: '' @ TypeOf (RPayload env))) out \<and>
    TypeOf (RPayload env)
      \<in> {''bool'', ''float64'', ''[]interface {}'', ''map[string]interface {}''} \<and>
    (\<forall>s. EvUnmarshal s \<notin> set (ret_trace out))"
    by simp
qed

lemma payload_absent_invalidI:
  assumes "\<And>r. sent r out \<Longrightarrow> answers w r out"
  shows "payload_absent_invalid w out"
  unfolding payload_absent_invalid_def
proof (intro allI impI, elim conjE)
  fix r resp env
  assume h: "sent r out" "DoRequest w r = Inr resp" "StatusCode resp = 200"
    "DecodeBody w resp = Inr env" "ErrCode env = SuccCode w"
    and absent: "RPayload env = VNil"
  from h(1) have "five_steps w r out"
    by (rule answers_five_steps [OF assms])
  moreover have "\<forall>s. RPayload env \<noteq> VString s"
    using absent by simp
  ultimately show "fails_with (Errorf ''response payload type invalid: <nil>'') out \<and>
    (\<forall>s. EvUnmarshal s \<notin> set (ret_trace out))"
    using five_steps_not_a_string [OF _ h(2-5)] absent by fastforce
qed

lemma header_pass_throughI:
  assumes "\<And>h r. sent r (run h) \<Longrightarrow> answers w r (run h) \<and> req_headers r = h"
  shows "header_pass_through w run"
  unfolding header_pass_through_def
proof (intro allI impI, elim conjE)
  fix h1 h2 r1 r2
  assume s1: "sent r1 (run h1)" and s2: "sent r2 (run h2)"
    and same: "DoRequest w r1 = DoRequest w r2"
  from assms [OF s1] assms [OF s2] sendAndDecode_same_answer [OF same]
  show "ret_result (run h1) = ret_result (run h2) \<and> ret_err (run h1) = ret_err (run h2) \<and>
    req_headers r1 = h1 \<and> req_headers r2 = h2"
    by (simp add: answers_def)
qed

section \<open>The properties\<close>

text \<open>
  C1. Every operation (the signing variants too) that has sent its request decodes the response in five steps, in
  this order, each ending the decoding when it fails: the status must be 200, else the
  transport's error is returned; the envelope must decode, else the decoder's error is
  returned; the error code must be the success code, else a coded error is returned; the
  payload must be a string, else a payload type error is returned; the payload string is
  unmarshalled into the result, and the unmarshaller's error is returned.
\<close>

theorem response_decoded_in_five_steps:
  "decodes_in_five_steps w (IssueCToken w hdr body sign) \<and>
   decodes_in_five_steps w (IssueAsset w hdr body sign) \<and>
   decodes_in_five_steps w (TransferCToken w hdr body sign) \<and>
   decodes_in_five_steps w (TransferAsset w hdr body sign) \<and>
   decodes_in_five_steps w (IssueCTokenSign w hdr body sp) \<and>
   decodes_in_five_steps w (IssueAssetSign w hdr body sp) \<and>
   decodes_in_five_steps w (TransferCTokenSign w hdr body sp) \<and>
   decodes_in_five_steps w (TransferAssetSign w hdr body sp) \<and>
   decodes_in_five_steps w (QueryTransactionLogs w hdr ident txType) \<and>
   decodes_in_five_steps w (CreatePOE w hdr body sp) \<and>
   decodes_in_five_steps w (UpdatePOE w hdr body sp) \<and>
   decodes_in_five_steps w (QueryPOE w hdr ident) \<and>
   decodes_in_five_steps w (UploadPOEFile w hdr poeID poeFile readOnly)"
  unfolding decodes_in_five_steps_def
  by (blast intro: answers_five_steps
      dest: IssueCToken_answers IssueAsset_answers TransferCToken_answers TransferAsset_answers
        IssueCTokenSign_answers IssueAssetSign_answers TransferCTokenSign_answers
        TransferAssetSign_answers
        QueryTransactionLogs_answers CreatePOE_answers UpdatePOE_answers QueryPOE_answers
        UploadPOEFile_answers)

theorem response_decoded_in_five_steps_witness:
  "sent demo_issue_request (IssueCToken demo Map.empty (Some ''{}'') None) \<and>
   ret_result (IssueCToken demo Map.empty (Some ''{}'') None) = Some ''{}'' \<and>
   ret_err (IssueCToken demo Map.empty (Some ''{}'') None) = None \<and>
   steps (IssueCToken demo Map.empty (Some ''{}'') None) =
     [EvDoRequest demo_issue_request, EvDecodeBody \<lparr>StatusCode = 200, Body = ''envelope''\<rparr>,
      EvUnmarshal ''{}'']"
proof -
  let ?out = "IssueCToken demo Map.empty (Some ''{}'') None"
  have s: "sent demo_issue_request ?out"
    by (simp add: IssueCToken_def demo_def demo_issue_request_def Let_def request_defs)
  have "decodes_in_five_steps demo ?out"
    using response_decoded_in_five_steps [where w = demo and hdr = Map.empty
        and body = "Some ''{}''" and sign = None]
    by simp
  with s have "five_steps demo demo_issue_request ?out"
    by (simp add: decodes_in_five_steps_def)
  with s show ?thesis
    by (simp add: five_steps_def demo_def)
qed

text \<open>
  C2. In the four signing variants, in \<^verbatim>\<open>CreatePOE\<close> and in \<^verbatim>\<open>UpdatePOE\<close>, the bytes
  given to \<^verbatim>\<open>buildSignatureBody\<close> are the bytes that travel as the \<^verbatim>\<open>Payload\<close> of the
  envelope sent, together with the signature made from them. The signing variants marshal
  the body a second time for the envelope; \<^verbatim>\<open>json.Marshal\<close> being a function of the
  body, the bytes are the same.
\<close>

theorem signed_bytes_are_sent_bytes:
  "signed_is_sent w (IssueCTokenSign w hdr body sp) \<and>
   signed_is_sent w (IssueAssetSign w hdr body sp) \<and>
   signed_is_sent w (TransferCTokenSign w hdr body sp) \<and>
   signed_is_sent w (TransferAssetSign w hdr body sp) \<and>
   signed_is_sent w (CreatePOE w hdr body sp) \<and>
   signed_is_sent w (UpdatePOE w hdr body sp)"
  by (intro conjI IssueCTokenSign_signed IssueAssetSign_signed TransferCTokenSign_signed
      TransferAssetSign_signed CreatePOE_signed UpdatePOE_signed)

theorem signed_bytes_are_sent_bytes_witness:
  "sent demo_signed_request (IssueCTokenSign demo Map.empty (Some ''{}'') (Some alice)) \<and>
   signings (IssueCTokenSign demo Map.empty (Some ''{}'') (Some alice)) = [(Some alice, ''{}'')] \<and>
   buildSignatureBody demo (Some alice) ''{}'' =
     Inr (Some \<lparr>SigCreator = ''did:axn:alice'', SigNonce = ''nonce'',
                 SignatureValue = ''sig:{}'', SignatureAlg = ''ed25519''\<rparr>) \<and>
   req_body demo_signed_request =
     Some (JSONBody
       \<lparr>Payload = ''{}'',
        Signature = Some \<lparr>SigCreator = ''did:axn:alice'', SigNonce = ''nonce'',
                           SignatureValue = ''sig:{}'', SignatureAlg = ''ed25519''\<rparr>\<rparr>)"
proof -
  let ?out = "IssueCTokenSign demo Map.empty (Some ''{}'') (Some alice)"
  have s: "sent demo_signed_request ?out"
    by (simp add: IssueCTokenSign_def IssueCToken_def demo_def demo_sign_def alice_def
        demo_signed_request_def Let_def request_defs)
  have "signed_is_sent demo ?out"
    using signed_bytes_are_sent_bytes [where w = demo and hdr = Map.empty
        and body = "Some ''{}''" and sp = "Some alice"]
    by simp
  with s obtain sp payload sign where
    sg: "signings ?out = [(sp, payload)]" and
    b: "buildSignatureBody demo sp payload = Inr sign" and
    rb: "req_body demo_signed_request = Some (JSONBody \<lparr>Payload = payload, Signature = sign\<rparr>)"
    unfolding signed_is_sent_def by blast
  from rb have "payload = ''{}''"
    by (simp add: demo_signed_request_def)
  moreover have "(Some alice, ''{}'') \<in> set (signings ?out)"
    by (simp add: IssueCTokenSign_def IssueCToken_def demo_def demo_sign_def alice_def
        Let_def request_defs)
  ultimately have "sp = Some alice"
    using sg by simp
  with s sg b rb \<open>payload = ''{}''\<close> show ?thesis
    by (simp add: demo_def demo_sign_def alice_def demo_signed_request_def)
qed

text \<open>
  C3. In every operation, an envelope whose error code is not the success code makes the
  operation return the coded error of this very code and message. The payload is not
  unmarshalled, and whatever the envelope carries as payload, the run is the same: the
  payload is not looked at.
\<close>

theorem remote_error_returned_verbatim:
  "remote_error_verbatim (\<lambda>w. IssueCToken w hdr body sign) w \<and>
   remote_error_verbatim (\<lambda>w. IssueAsset w hdr body sign) w \<and>
   remote_error_verbatim (\<lambda>w. TransferCToken w hdr body sign) w \<and>
   remote_error_verbatim (\<lambda>w. TransferAsset w hdr body sign) w \<and>
   remote_error_verbatim (\<lambda>w. IssueCTokenSign w hdr body sp) w \<and>
   remote_error_verbatim (\<lambda>w. IssueAssetSign w hdr body sp) w \<and>
   remote_error_verbatim (\<lambda>w. TransferCTokenSign w hdr body sp) w \<and>
   remote_error_verbatim (\<lambda>w. TransferAssetSign w hdr body sp) w \<and>
   remote_error_verbatim (\<lambda>w. QueryTransactionLogs w hdr ident txType) w \<and>
   remote_error_verbatim (\<lambda>w. CreatePOE w hdr body sp) w \<and>
   remote_error_verbatim (\<lambda>w. UpdatePOE w hdr body sp) w \<and>
   remote_error_verbatim (\<lambda>w. QueryPOE w hdr ident) w \<and>
   remote_error_verbatim (\<lambda>w. UploadPOEFile w hdr poeID poeFile readOnly) w"
proof (intro conjI)
  show "remote_error_verbatim (\<lambda>w. IssueCToken w hdr body sign) w"
    by (rule remote_error_verbatimI) (simp_all add: IssueCToken_answers IssueCToken_with_payload)
  show "remote_error_verbatim (\<lambda>w. IssueAsset w hdr body sign) w"
    by (rule remote_error_verbatimI) (simp_all add: IssueAsset_answers IssueAsset_with_payload)
  show "remote_error_verbatim (\<lambda>w. TransferCToken w hdr body sign) w"
    by (rule remote_error_verbatimI)
      (simp_all add: TransferCToken_answers TransferCToken_with_payload)
  show "remote_error_verbatim (\<lambda>w. TransferAsset w hdr body sign) w"
    by (rule remote_error_verbatimI)
      (simp_all add: TransferAsset_answers TransferAsset_with_payload)
  show "remote_error_verbatim (\<lambda>w. IssueCTokenSign w hdr body sp) w"
    by (rule remote_error_verbatimI)
      (simp_all add: IssueCTokenSign_answers IssueCTokenSign_with_payload)
  show "remote_error_verbatim (\<lambda>w. IssueAssetSign w hdr body sp) w"
    by (rule remote_error_verbatimI)
      (simp_all add: IssueAssetSign_answers IssueAssetSign_with_payload)
  show "remote_error_verbatim (\<lambda>w. TransferCTokenSign w hdr body sp) w"
    by (rule remote_error_verbatimI)
      (simp_all add: TransferCTokenSign_answers TransferCTokenSign_with_payload)
  show "remote_error_verbatim (\<lambda>w. TransferAssetSign w hdr body sp) w"
    by (rule remote_error_verbatimI)
      (simp_all add: TransferAssetSign_answers TransferAssetSign_with_payload)
  show "remote_error_verbatim (\<lambda>w. QueryTransactionLogs w hdr ident txType) w"
    by (rule remote_error_verbatimI)
      (simp_all add: QueryTransactionLogs_answers QueryTransactionLogs_with_payload)
  show "remote_error_verbatim (\<lambda>w. CreatePOE w hdr body sp) w"
    by (rule remote_error_verbatimI) (simp_all add: CreatePOE_answers CreatePOE_with_payload)
  show "remote_error_verbatim (\<lambda>w. UpdatePOE w hdr body sp) w"
    by (rule remote_error_verbatimI) (simp_all add: UpdatePOE_answers UpdatePOE_with_payload)
  show "remote_error_verbatim (\<lambda>w. QueryPOE w hdr ident) w"
    by (rule remote_error_verbatimI) (simp_all add: QueryPOE_answers QueryPOE_with_payload)
  show "remote_error_verbatim (\<lambda>w. UploadPOEFile w hdr poeID poeFile readOnly) w"
    by (rule remote_error_verbatimI)
      (simp_all add: UploadPOEFile_answers UploadPOEFile_with_payload)
qed

theorem remote_error_returned_verbatim_witness:
  "sent demo_issue_request (IssueCToken (demo_answering rejected) Map.empty (Some ''{}'') None) \<and>
   DecodeBody (demo_answering rejected) \<lparr>StatusCode = 200, Body = ''envelope''\<rparr> = Inr rejected \<and>
   ErrCode rejected \<noteq> SuccCode (demo_answering rejected) \<and>
   RPayload rejected = VString ''{}'' \<and>
   fails_with (CodedError 5001 ''insufficient balance'')
     (IssueCToken (demo_answering rejected) Map.empty (Some ''{}'') None) \<and>
   EvUnmarshal ''{}''
     \<notin> set (ret_trace (IssueCToken (demo_answering rejected) Map.empty (Some ''{}'') None)) \<and>
   IssueCToken (with_payload VNil (demo_answering rejected)) Map.empty (Some ''{}'') None =
     IssueCToken (demo_answering rejected) Map.empty (Some ''{}'') None"
proof -
  let ?w = "demo_answering rejected"
  let ?out = "IssueCToken ?w Map.empty (Some ''{}'') None"
  have s: "sent demo_issue_request ?out"
    by (simp add: IssueCToken_def demo_answering_def demo_def demo_issue_request_def Let_def
        request_defs)
  have d: "DoRequest ?w demo_issue_request = Inr \<lparr>StatusCode = 200, Body = ''envelope''\<rparr>"
    "DecodeBody ?w \<lparr>StatusCode = 200, Body = ''envelope''\<rparr> = Inr rejected"
    "ErrCode rejected \<noteq> SuccCode ?w" "RPayload rejected = VString ''{}''"
    by (simp_all add: demo_answering_def demo_def rejected_def)
  have "remote_error_verbatim (\<lambda>w. IssueCToken w Map.empty (Some ''{}'') None) ?w"
    using remote_error_returned_verbatim [where w = ?w and hdr = Map.empty
        and body = "Some ''{}''" and sign = None]
    by simp
  with s d have "fails_with (CodedError (ErrCode rejected) (ErrMessage rejected)) ?out \<and>
      (\<forall>s. EvUnmarshal s \<notin> set (ret_trace ?out)) \<and>
      (\<forall>p. IssueCToken (with_payload p ?w) Map.empty (Some ''{}'') None = ?out)"
    unfolding remote_error_verbatim_def by force
  with s d show ?thesis
    by (simp add: rejected_def)
qed

text \<open>
  C4. In every operation, an envelope with the success code whose payload is there and
  is not a string makes the operation fail with the payload type error that names the
  type found; the result is nil and nothing is unmarshalled.
\<close>

theorem non_string_payload_is_type_error:
  "payload_type_invalid w (IssueCToken w hdr body sign) \<and>
   payload_type_invalid w (IssueAsset w hdr body sign) \<and>
   payload_type_invalid w (TransferCToken w hdr body sign) \<and>
   payload_type_invalid w (TransferAsset w hdr body sign) \<and>
   payload_type_invalid w (IssueCTokenSign w hdr body sp) \<and>
   payload_type_invalid w (IssueAssetSign w hdr body sp) \<and>
   payload_type_invalid w (TransferCTokenSign w hdr body sp) \<and>
   payload_type_invalid w (TransferAssetSign w hdr body sp) \<and>
   payload_type_invalid w (QueryTransactionLogs w hdr ident txType) \<and>
   payload_type_invalid w (CreatePOE w hdr body sp) \<and>
   payload_type_invalid w (UpdatePOE w hdr body sp) \<and>
   payload_type_invalid w (QueryPOE w hdr ident) \<and>
   payload_type_invalid w (UploadPOEFile w hdr poeID poeFile readOnly)"
  by (intro conjI payload_type_invalidI)
    (simp_all add: IssueCToken_answers IssueAsset_answers TransferCToken_answers
      TransferAsset_answers IssueCTokenSign_answers IssueAssetSign_answers
      TransferCTokenSign_answers TransferAssetSign_answers QueryTransactionLogs_answers CreatePOE_answers UpdatePOE_answers
      QueryPOE_answers UploadPOEFile_answers)

theorem non_string_payload_is_type_error_witness:
  "sent demo_query_request (QueryPOE (demo_answering drifted) Map.empty '''') \<and>
   DecodeBody (demo_answering drifted) \<lparr>StatusCode = 200, Body = ''envelope''\<rparr> = Inr drifted \<and>
   ErrCode drifted = SuccCode (demo_answering drifted) \<and>
   RPayload drifted = VMap [(''id'', VString ''poe-1'')] \<and>
   fails_with (Errorf ''response payload type invalid: map[string]interface {}'')
     (QueryPOE (demo_answering drifted) Map.empty '''') \<and>
   EvUnmarshal ''{}'' \<notin> set (ret_trace (QueryPOE (demo_answering drifted) Map.empty ''''))"
proof -
  let ?w = "demo_answering drifted"
  let ?out = "QueryPOE ?w Map.empty ''''"
  have s: "sent demo_query_request ?out"
    by (simp add: QueryPOE_def demo_answering_def demo_def demo_query_request_def Let_def
        request_defs)
  have d: "DoRequest ?w demo_query_request = Inr \<lparr>StatusCode = 200, Body = ''envelope''\<rparr>"
    "DecodeBody ?w \<lparr>StatusCode = 200, Body = ''envelope''\<rparr> = Inr drifted"
    "ErrCode drifted = SuccCode ?w" "RPayload drifted = VMap [(''id'', VString ''poe-1'')]"
    by (simp_all add: demo_answering_def demo_def drifted_def)
  have "payload_type_invalid ?w ?out"
    using non_string_payload_is_type_error [where w = ?w and hdr = Map.empty and ident = "''''"]
    by simp
  with s d have "fails_with
      (Errorf (''response payload type invalid: '' @ TypeOf (RPayload drifted))) ?out \<and>
      (\<forall>s. EvUnmarshal s \<notin> set (ret_trace ?out))"
    unfolding payload_type_invalid_def by force
  with s d show ?thesis
    by simp
qed

text \<open>
  C5. A query with an empty identifier is to fail before a request is built.
  \<^verbatim>\<open>QueryTransactionLogs\<close> does so (\<open>QueryTransactionLogs_empty_id\<close>);
  \<^verbatim>\<open>QueryPOE\<close> has no such test: with the empty identifier it builds the request
  \<^verbatim>\<open>GET /v1/poe?id=\<close>, sends it, and returns what the response decodes to.
\<close>

theorem QueryPOE_empty_id_is_sent:
  "ret_trace (QueryPOE demo Map.empty '''') =
     [EvNewRequest ''GET'' ''/v1/poe'', EvDoRequest demo_query_request,
      EvDecodeBody \<lparr>StatusCode = 200, Body = ''envelope''\<rparr>, EvUnmarshal ''{}'', EvBodyClose] \<and>
   req_params demo_query_request = [(''id'', '''')] \<and>
   ret_err (QueryPOE demo Map.empty '''') = None \<and>
   ret_result (QueryPOE demo Map.empty '''') = Some ''{}''"
  by (simp add: QueryPOE_def sendAndDecode_def RequireOK_def demo_def demo_query_request_def
      Let_def request_defs)

text \<open>
  C6. \<^verbatim>\<open>UploadPOEFile\<close> with a POE id and a file path that are not empty, on a file that
  \<^verbatim>\<open>os.Open\<close> cannot open, returns the error of \<^verbatim>\<open>os.Open\<close>; the opening of the file is
  all it has done, and no request is sent.
\<close>

theorem upload_of_missing_file_fails_locally:
  assumes "poeID \<noteq> ''''" and "poeFile \<noteq> ''''" and "osOpen w poeFile = Inl e"
  shows "fails_with e (UploadPOEFile w hdr poeID poeFile readOnly) \<and>
    ret_trace (UploadPOEFile w hdr poeID poeFile readOnly) = [EvOpen poeFile] \<and>
    (\<forall>r. \<not> sent r (UploadPOEFile w hdr poeID poeFile readOnly))"
  using assms unfolding UploadPOEFile_def
  by (simp add: Let_def writer_defs)

theorem upload_of_missing_file_fails_locally_witness:
  "''poe-1'' \<noteq> '''' \<and> ''b.txt'' \<noteq> '''' \<and>
   osOpen demo ''b.txt'' = Inl (LibError ''no such file or directory'') \<and>
   fails_with (LibError ''no such file or directory'')
     (UploadPOEFile demo Map.empty ''poe-1'' ''b.txt'' False) \<and>
   ret_trace (UploadPOEFile demo Map.empty ''poe-1'' ''b.txt'' False) = [EvOpen ''b.txt''] \<and>
   \<not> sent demo_upload_request (UploadPOEFile demo Map.empty ''poe-1'' ''b.txt'' False)"
proof -
  have h: "''poe-1'' \<noteq> ''''" "''b.txt'' \<noteq> ''''"
    "osOpen demo ''b.txt'' = Inl (LibError ''no such file or directory'')"
    by (simp_all add: demo_def)
  from upload_of_missing_file_fails_locally [OF h, of Map.empty False] h show ?thesis
    by simp
qed

text \<open>
  C7. The body \<^verbatim>\<open>UploadPOEFile\<close> sends is the POE id field, then the read-only field
  with the text \<^verbatim>\<open>true\<close> or \<^verbatim>\<open>false\<close>, then the file part with the bytes of the file,
  then the terminating boundary: the writer is closed before the request is built. The
  content type sent names the same boundary.
\<close>

theorem upload_body_is_complete:
  assumes "sent r (UploadPOEFile w hdr poeID poeFile readOnly)"
  shows "\<exists>f. osOpen w poeFile = Inr f \<and>
    req_body r = Some (RawBody
      (form_field (randomBoundary w) (OffchainPOEID w) poeID @ CRLF
       @ form_field (randomBoundary w) (OffchainReadOnly w)
           (if readOnly then ''true'' else ''false'') @ CRLF
       @ form_file (randomBoundary w) (OffchainPOEFile w) poeFile (file_bytes f)
       @ terminating_boundary (randomBoundary w))) \<and>
    req_header_sets r =
      [(''Content-Type'', ''multipart/form-data; boundary='' @ randomBoundary w)]"
  using assms unfolding UploadPOEFile_def
  by (auto simp: Let_def writer_defs request_defs FormatBool_def form_field_def form_file_def
      terminating_boundary_def split: sum.splits option.splits if_splits)

theorem upload_body_is_complete_witness:
  "sent demo_upload_request (UploadPOEFile demo Map.empty ''poe-1'' ''a.txt'' True) \<and>
   osOpen demo ''a.txt'' = Inr \<lparr>file_bytes = ''abc'', file_read_err = None\<rparr> \<and>
   req_body demo_upload_request =
     Some (RawBody
       (form_field ''XX'' ''poe_id'' ''poe-1'' @ CRLF
        @ form_field ''XX'' ''read_only'' ''true'' @ CRLF
        @ form_file ''XX'' ''poe_file'' ''a.txt'' ''abc''
        @ terminating_boundary ''XX''))"
proof -
  have s: "sent demo_upload_request (UploadPOEFile demo Map.empty ''poe-1'' ''a.txt'' True)"
    by (simp add: UploadPOEFile_def demo_def demo_upload_request_def Let_def writer_defs
        request_defs FormatBool_def form_field_def form_file_def terminating_boundary_def)
  from upload_body_is_complete [OF s] s show ?thesis
    by (auto simp: demo_def)
qed

text \<open>
  C8. In every operation the header is handed to the request as it is, and the decoding
  does not read it: of two runs of an operation that differ in the header only, and that
  got the same answer from the transport, each has sent its own header, and both return
  the same result and the same error.
\<close>

theorem decoding_independent_of_header:
  "header_pass_through w (\<lambda>h. IssueCToken w h body sign) \<and>
   header_pass_through w (\<lambda>h. IssueCTokenSign w h body sp) \<and>
   header_pass_through w (\<lambda>h. IssueAsset w h body sign) \<and>
   header_pass_through w (\<lambda>h. IssueAssetSign w h body sp) \<and>
   header_pass_through w (\<lambda>h. TransferCToken w h body sign) \<and>
   header_pass_through w (\<lambda>h. TransferCTokenSign w h body sp) \<and>
   header_pass_through w (\<lambda>h. TransferAsset w h body sign) \<and>
   header_pass_through w (\<lambda>h. TransferAssetSign w h body sp) \<and>
   header_pass_through w (\<lambda>h. QueryTransactionLogs w h ident txType) \<and>
   header_pass_through w (\<lambda>h. CreatePOE w h body sp) \<and>
   header_pass_through w (\<lambda>h. UpdatePOE w h body sp) \<and>
   header_pass_through w (\<lambda>h. QueryPOE w h ident) \<and>
   header_pass_through w (\<lambda>h. UploadPOEFile w h poeID poeFile readOnly)"
  by (intro conjI header_pass_throughI IssueCToken_answers IssueCTokenSign_answers
      IssueAsset_answers IssueAssetSign_answers TransferCToken_answers
      TransferCTokenSign_answers TransferAsset_answers TransferAssetSign_answers
      QueryTransactionLogs_answers CreatePOE_answers UpdatePOE_answers QueryPOE_answers
      UploadPOEFile_answers)

theorem decoding_independent_of_header_witness:
  "sent demo_issue_request (IssueCToken demo Map.empty (Some ''{}'') None) \<and>
   sent demo_sync_request
     (IssueCToken demo [''Bc-Invoke-Mode'' \<mapsto> [''sync'']] (Some ''{}'') None) \<and>
   DoRequest demo demo_issue_request = DoRequest demo demo_sync_request \<and>
   ret_result (IssueCToken demo Map.empty (Some ''{}'') None) =
     ret_result (IssueCToken demo [''Bc-Invoke-Mode'' \<mapsto> [''sync'']] (Some ''{}'') None) \<and>
   ret_err (IssueCToken demo Map.empty (Some ''{}'') None) =
     ret_err (IssueCToken demo [''Bc-Invoke-Mode'' \<mapsto> [''sync'']] (Some ''{}'') None) \<and>
   req_headers demo_sync_request = [''Bc-Invoke-Mode'' \<mapsto> [''sync'']]"
proof -
  have s: "sent demo_issue_request (IssueCToken demo Map.empty (Some ''{}'') None)"
    "sent demo_sync_request
       (IssueCToken demo [''Bc-Invoke-Mode'' \<mapsto> [''sync'']] (Some ''{}'') None)"
    "DoRequest demo demo_issue_request = DoRequest demo demo_sync_request"
    by (simp_all add: IssueCToken_def demo_def demo_issue_request_def demo_sync_request_def
        Let_def request_defs)
  have "header_pass_through demo (\<lambda>h. IssueCToken demo h (Some ''{}'') None)"
    using decoding_independent_of_header [where w = demo and body = "Some ''{}''"
        and sign = None]
    by simp
  with s show ?thesis
    unfolding header_pass_through_def by blast
qed

text \<open>
  C9. In every operation, an envelope with the success code and no payload makes the
  operation fail with the payload type error, the type named being \<^verbatim>\<open><nil>\<close>: the result
  is nil and nothing is unmarshalled.
\<close>

theorem absent_payload_is_type_error:
  "payload_absent_invalid w (IssueCToken w hdr body sign) \<and>
   payload_absent_invalid w (IssueAsset w hdr body sign) \<and>
   payload_absent_invalid w (TransferCToken w hdr body sign) \<and>
   payload_absent_invalid w (TransferAsset w hdr body sign) \<and>
   payload_absent_invalid w (IssueCTokenSign w hdr body sp) \<and>
   payload_absent_invalid w (IssueAssetSign w hdr body sp) \<and>
   payload_absent_invalid w (TransferCTokenSign w hdr body sp) \<and>
   payload_absent_invalid w (TransferAssetSign w hdr body sp) \<and>
   payload_absent_invalid w (QueryTransactionLogs w hdr ident txType) \<and>
   payload_absent_invalid w (CreatePOE w hdr body sp) \<and>
   payload_absent_invalid w (UpdatePOE w hdr body sp) \<and>
   payload_absent_invalid w (QueryPOE w hdr ident) \<and>
   payload_absent_invalid w (UploadPOEFile w hdr poeID poeFile readOnly)"
  by (intro conjI payload_absent_invalidI)
    (simp_all add: IssueCToken_answers IssueAsset_answers TransferCToken_answers
      TransferAsset_answers IssueCTokenSign_answers IssueAssetSign_answers
      TransferCTokenSign_answers TransferAssetSign_answers QueryTransactionLogs_answers CreatePOE_answers UpdatePOE_answers
      QueryPOE_answers UploadPOEFile_answers)

theorem absent_payload_is_type_error_witness:
  "sent demo_issue_request (IssueCToken (demo_answering empty_handed) Map.empty (Some ''{}'') None) \<and>
   DecodeBody (demo_answering empty_handed) \<lparr>StatusCode = 200, Body = ''envelope''\<rparr> =
     Inr empty_handed \<and>
   ErrCode empty_handed = SuccCode (demo_answering empty_handed) \<and>
   RPayload empty_handed = VNil \<and>
   fails_with (Errorf ''response payload type invalid: <nil>'')
     (IssueCToken (demo_answering empty_handed) Map.empty (Some ''{}'') None) \<and>
   steps (IssueCToken (demo_answering empty_handed) Map.empty (Some ''{}'') None) =
     [EvDoRequest demo_issue_request, EvDecodeBody \<lparr>StatusCode = 200, Body = ''envelope''\<rparr>]"
proof -
  let ?w = "demo_answering empty_handed"
  let ?out = "IssueCToken ?w Map.empty (Some ''{}'') None"
  have s: "sent demo_issue_request ?out"
    by (simp add: IssueCToken_def demo_answering_def demo_def demo_issue_request_def Let_def
        request_defs)
  have d: "DoRequest ?w demo_issue_request = Inr \<lparr>StatusCode = 200, Body = ''envelope''\<rparr>"
    "DecodeBody ?w \<lparr>StatusCode = 200, Body = ''envelope''\<rparr> = Inr empty_handed"
    "ErrCode empty_handed = SuccCode ?w" "RPayload empty_handed = VNil"
    by (simp_all add: demo_answering_def demo_def empty_handed_def)
  have st: "steps ?out =
      [EvDoRequest demo_issue_request, EvDecodeBody \<lparr>StatusCode = 200, Body = ''envelope''\<rparr>]"
    by (simp add: steps_def IssueCToken_def sendAndDecode_def RequireOK_def demo_answering_def
        demo_def demo_issue_request_def empty_handed_def Let_def request_defs)
  have "payload_absent_invalid ?w ?out"
    using absent_payload_is_type_error [where w = ?w and hdr = Map.empty
        and body = "Some ''{}''" and sign = None]
    by simp
  with s d have "fails_with (Errorf ''response payload type invalid: <nil>'') ?out"
    unfolding payload_absent_invalid_def by force
  with s d st show ?thesis
    by simp
qed

text \<open>
  C10. In the signing operations a failure of the key custody lookup or of the signing
  is returned before a request is built or sent. The signing variants sign the
  marshalled body with the parameters given; \<^verbatim>\<open>CreatePOE\<close> and \<^verbatim>\<open>UpdatePOE\<close> first look
  the parameters up when the key custody client is there, and sign with what they got.
\<close>

theorem signing_failure_sends_nothing:
  "signing_failure_stops w b sp (IssueCTokenSign w hdr (Some b) sp) \<and>
   signing_failure_stops w b sp (IssueAssetSign w hdr (Some b) sp) \<and>
   signing_failure_stops w b sp (TransferCTokenSign w hdr (Some b) sp) \<and>
   signing_failure_stops w b sp (TransferAssetSign w hdr (Some b) sp) \<and>
   custody_failure_stops w hdr sp (CreatePOE w hdr (Some b) sp) \<and>
   (\<forall>sp'. resolved w hdr sp sp' \<longrightarrow>
      signing_failure_stops w b sp' (CreatePOE w hdr (Some b) sp)) \<and>
   custody_failure_stops w hdr sp (UpdatePOE w hdr (Some b) sp) \<and>
   (\<forall>sp'. resolved w hdr sp sp' \<longrightarrow>
      signing_failure_stops w b sp' (UpdatePOE w hdr (Some b) sp))"
  by (intro conjI allI impI IssueCTokenSign_signing_failure IssueAssetSign_signing_failure
      TransferCTokenSign_signing_failure TransferAssetSign_signing_failure
      CreatePOE_custody_failure CreatePOE_signing_failure UpdatePOE_custody_failure
      UpdatePOE_signing_failure)

theorem signing_failure_sends_nothing_witness:
  "jsonMarshal demo ''{}'' = Inr ''{}'' \<and>
   buildSignatureBody demo None ''{}'' = Inl (LibError ''signature params invalid'') \<and>
   fails_with (LibError ''signature params invalid'')
     (IssueCTokenSign demo Map.empty (Some ''{}'') None) \<and>
   no_request (IssueCTokenSign demo Map.empty (Some ''{}'') None) \<and>
   fails_with (LibError ''signature params invalid'')
     (CreatePOE demo Map.empty (Some ''{}'') None) \<and>
   no_request (CreatePOE demo Map.empty (Some ''{}'') None) \<and>
   queryPrivateKey (demo\<lparr>w_s := Some ()\<rparr>) Map.empty (Some alice) = Inl (LibError ''key not found'') \<and>
   fails_with (LibError ''key not found'')
     (UpdatePOE (demo\<lparr>w_s := Some ()\<rparr>) Map.empty (Some ''{}'') (Some alice)) \<and>
   no_request (UpdatePOE (demo\<lparr>w_s := Some ()\<rparr>) Map.empty (Some ''{}'') (Some alice))"
proof -
  let ?c = "demo\<lparr>w_s := Some ()\<rparr>"
  have m: "jsonMarshal demo ''{}'' = Inr ''{}''"
    "buildSignatureBody demo None ''{}'' = Inl (LibError ''signature params invalid'')"
    by (simp_all add: demo_def demo_sign_def)
  have k: "w_s ?c \<noteq> None"
    "queryPrivateKey ?c Map.empty (Some alice) = Inl (LibError ''key not found'')"
    by (simp_all add: demo_def)
  have r: "resolved demo Map.empty None None"
    by (simp add: resolved_def demo_def)
  note t = signing_failure_sends_nothing [where w = demo and hdr = Map.empty and b = "''{}''"
      and sp = None]
  note u = signing_failure_sends_nothing [where w = ?c and hdr = Map.empty and b = "''{}''"
      and sp = "Some alice"]
  have a: "signing_failure_stops demo ''{}'' None (IssueCTokenSign demo Map.empty (Some ''{}'') None)"
    using t by simp
  have b: "signing_failure_stops demo ''{}'' None (CreatePOE demo Map.empty (Some ''{}'') None)"
    using t r by blast
  have c: "custody_failure_stops ?c Map.empty (Some alice)
      (UpdatePOE ?c Map.empty (Some ''{}'') (Some alice))"
    using u by simp
  from a m have "fails_with (LibError ''signature params invalid'')
      (IssueCTokenSign demo Map.empty (Some ''{}'') None) \<and>
      no_request (IssueCTokenSign demo Map.empty (Some ''{}'') None)"
    unfolding signing_failure_stops_def by blast
  moreover from b m have "fails_with (LibError ''signature params invalid'')
      (CreatePOE demo Map.empty (Some ''{}'') None) \<and>
      no_request (CreatePOE demo Map.empty (Some ''{}'') None)"
    unfolding signing_failure_stops_def by blast
  moreover from c k have "fails_with (LibError ''key not found'')
      (UpdatePOE ?c Map.empty (Some ''{}'') (Some alice)) \<and>
      no_request (UpdatePOE ?c Map.empty (Some ''{}'') (Some alice))"
    unfolding custody_failure_stops_def by blast
  ultimately show ?thesis
    using m k by simp
qed


end
